theory Spec2Isabelle
  imports Complex_Main "HOL-Library.AList"
begin

section \<open>Python values used by the two bots\<close>

text \<open>
  Numbers are reals. The arithmetic the repository does itself (the cost, debit and
  credit of the simulated ledger) is Python float arithmetic and is modelled with its
  rounding, see \<open>fl\<close> below. The moving averages are computed inside pandas, which is
  not part of the repository: the columns are given by the exact mean of the window,
  and nothing here states what rounded value pandas stores. A pandas NaN is \<open>None\<close>.
\<close>

datatype py_error = IndexError | KeyError | AttributeError | ClientException

text \<open>\<open>series.iloc[i]\<close>: positional read, negative positions count from the end,
  a position outside the series raises IndexError.\<close>

definition iloc :: "'a list \<Rightarrow> int \<Rightarrow> py_error + 'a" where
  "iloc xs i =
     (if 0 \<le> i \<and> i < int (length xs) then Inr (xs ! nat i)
      else if i < 0 \<and> 0 \<le> int (length xs) + i then Inr (xs ! nat (int (length xs) + i))
      else Inl IndexError)"

section \<open>Python floats\<close>

text \<open>
  A Python float is an IEEE 754 binary64 number and every operation returns the exact
  result rounded to the nearest such number, ties to the even significand.
  \<open>round_even\<close> rounds a real to the nearest integer, ties to even; \<open>fl x\<close> scales \<open>x\<close>
  so that its significand has 53 bits, rounds it and scales back. The exponent is not
  bounded: overflow to infinity, NaN and subnormal numbers are outside the model.
  Comparisons of floats are exact.
\<close>

definition round_even :: "real \<Rightarrow> int" where
  "round_even y =
     (let n = \<lfloor>y\<rfloor>; d = y - of_int n
      in if d < 1 / 2 then n else if 1 / 2 < d then n + 1 else if even n then n else n + 1)"

definition fl :: "real \<Rightarrow> real" where
  "fl x =
     (if x = 0 then 0
      else (let e = \<lfloor>log 2 \<bar>x\<bar>\<rfloor> - 52
            in of_int (round_even (x / 2 powi e)) * 2 powi e))"

definition fmul :: "real \<Rightarrow> real \<Rightarrow> real" where
  "fmul x y = fl (x * y)"

definition fadd :: "real \<Rightarrow> real \<Rightarrow> real" where
  "fadd x y = fl (x + y)"

definition fsub :: "real \<Rightarrow> real \<Rightarrow> real" where
  "fsub x y = fl (x - y)"

section \<open>Moving averages and the signal column (calculate_signals)\<close>

text \<open>
  \<open>series.rolling(window=w).mean()\<close>: row \<open>i\<close> holds the mean of the \<open>w\<close> values ending
  at row \<open>i\<close>, and NaN while fewer than \<open>w\<close> values exist (min_periods defaults to the
  window). \<open>window_mean w ys\<close> is the entry of the last row of \<open>ys\<close>, as the exact mean:
  the float that pandas stores for it depends on the summation inside the library.
\<close>

definition window_mean :: "nat \<Rightarrow> real list \<Rightarrow> real option" where
  "window_mean w ys =
     (if w = 0 \<or> length ys < w then None
      else Some (sum_list (drop (length ys - w) ys) / real w))"

definition rolling_mean :: "nat \<Rightarrow> real list \<Rightarrow> real option list" where
  "rolling_mean w xs = map (\<lambda>i. window_mean w (take (Suc i) xs)) [0..<length xs]"

text \<open>Comparisons of two columns; any comparison with NaN is False.\<close>

definition nan_gt :: "real option \<Rightarrow> real option \<Rightarrow> bool" where
  "nan_gt a b = (case a of None \<Rightarrow> False | Some x \<Rightarrow> (case b of None \<Rightarrow> False | Some y \<Rightarrow> x > y))"

definition nan_lt :: "real option \<Rightarrow> real option \<Rightarrow> bool" where
  "nan_lt a b = (case a of None \<Rightarrow> False | Some x \<Rightarrow> (case b of None \<Rightarrow> False | Some y \<Rightarrow> x < y))"

definition UP :: int where "UP = 1"
definition DOWN :: int where "DOWN = - 1"
definition FLAT :: int where "FLAT = 0"

text \<open>
  The three assignments to \<open>df['signal']\<close>, in the order of the source:
  \<open>df['signal'] = 0\<close>, then \<open>1\<close> where \<open>MA_short > MA_long\<close>, then \<open>-1\<close> where
  \<open>MA_short < MA_long\<close>.
\<close>

definition assign_signal :: "real option \<Rightarrow> real option \<Rightarrow> int" where
  "assign_signal s l =
     (let sig0 = 0;
          sig1 = (if nan_gt s l then 1 else sig0);
          sig2 = (if nan_lt s l then - 1 else sig1)
      in sig2)"

record frame =
  close :: "real list"
  MA_short :: "real option list"
  MA_long :: "real option list"
  signal :: "int list"

text \<open>
  \<open>calculate_signals\<close> of test_trading_bot.py (lines 66-83) on a frame whose close
  column is \<open>closes\<close>; \<open>S\<close> and \<open>L\<close> are \<open>self.moving_avg_short\<close> and
  \<open>self.moving_avg_long\<close>. No statement of its try block raises on a numeric close
  column, so it returns the frame.
\<close>

definition calculate_signals :: "nat \<Rightarrow> nat \<Rightarrow> real list \<Rightarrow> frame" where
  "calculate_signals S L closes =
     (let ms = rolling_mean S closes;
          ml = rolling_mean L closes
      in \<lparr>close = closes, MA_short = ms, MA_long = ml,
          signal = map (\<lambda>(s, l). assign_signal s l) (zip ms ml)\<rparr>)"

text \<open>
  \<open>calculate_signals\<close> of trading_bot.py (lines 82-112): the same columns, then
  \<open>df['close'].iloc[-1]\<close> is read for the log message inside the try block; on an empty
  frame that raises IndexError, the handler logs it and the method returns None.
\<close>

definition calculate_signals_live :: "nat \<Rightarrow> nat \<Rightarrow> real list \<Rightarrow> frame option" where
  "calculate_signals_live S L closes =
     (let df = calculate_signals S L closes
      in case iloc (close df) (- 1) of Inl e \<Rightarrow> None | Inr current_price \<Rightarrow> Some df)"

section \<open>Edge detection in run_bot\<close>

datatype action = NONE | ENTER_LONG | EXIT_LONG

text \<open>
  The decision of run_bot (trading_bot.py lines 208-221, test_trading_bot.py lines
  152-163): \<open>if current_signal != previous_signal\<close>, then the buy branch
  \<open>current_signal == 1 and previous_signal == -1\<close>, else the sell branch
  \<open>current_signal == -1 and previous_signal == 1\<close>.
\<close>

definition detectTransition :: "int \<Rightarrow> int \<Rightarrow> action" where
  "detectTransition previous_signal current_signal =
     (if current_signal \<noteq> previous_signal then
        (if current_signal = 1 \<and> previous_signal = - 1 then ENTER_LONG
         else if current_signal = - 1 \<and> previous_signal = 1 then EXIT_LONG
         else NONE)
      else NONE)"

text \<open>
  The two reads \<open>df['signal'].iloc[-1]\<close> and \<open>df['signal'].iloc[-2]\<close> (in this order)
  followed by the decision; a signal column with fewer than two rows raises IndexError.
\<close>

definition cycle_action :: "int list \<Rightarrow> py_error + action" where
  "cycle_action sig_col =
     (case iloc sig_col (- 1) of
        Inl e \<Rightarrow> Inl e
      | Inr current_signal \<Rightarrow>
          (case iloc sig_col (- 2) of
             Inl e \<Rightarrow> Inl e
           | Inr previous_signal \<Rightarrow> Inr (detectTransition previous_signal current_signal)))"

section \<open>The simulation bot (test_trading_bot.py)\<close>

text \<open>
  \<open>symbol.replace('USDT', '')\<close>: every occurrence of the four characters is removed,
  scanning from the left; the scan resumes after a removed occurrence.
\<close>

fun replace_USDT :: "string \<Rightarrow> string" where
  "replace_USDT [] = []"
| "replace_USDT (c # cs) =
     (if take 4 (c # cs) = ''USDT'' then replace_USDT (drop 3 cs) else c # replace_USDT cs)"

text \<open>
  Of the logger calls only \<open>warning\<close> and \<open>error\<close> are recorded (they are the only
  report of a failure the source gives); \<open>info\<close> calls are left out. The text of an
  error record is the constant prefix of the f-string, the exception is its argument.
\<close>

datatype log_record = Warning string | Error string py_error

text \<open>
  One element of \<open>self.trade_log\<close>: the dict with keys type, quantity, price, balance.
  The balance is \<open>dict(self.digital_balance)\<close>, a copy made when the entry is built, so
  the entry holds the balances of that moment as a value of its own.
\<close>

record trade =
  trade_type :: string
  trade_quantity :: real
  trade_price :: real
  trade_balance :: "(string \<times> real) list"

datatype json = JString string | JNumber real | JArray "json list" | JObject "(string \<times> json) list"

text \<open>
  A Python dict is an association list in insertion order: \<open>map_of\<close> reads a key,
  \<open>AList.update\<close> assigns (in place for a key that exists, at the end for a new one).
  \<open>files\<close> is the directory written by \<open>save_trade_log\<close>, \<open>log_records\<close> what the logger
  received.
\<close>

record sim_bot =
  simulation_mode :: bool
  symbol :: string
  interval :: string
  quantity :: real
  moving_avg_short :: nat
  moving_avg_long :: nat
  digital_balance :: "(string \<times> real) list"
  trade_log :: "trade list"
  log_records :: "log_record list"
  files :: "(string \<times> json) list"

text \<open>
  \<open>__init__\<close> (lines 14-43); the dict literal assigns \<open>"USDT"\<close> first, then the base asset.
  The literal \<open>0.001\<close> is the float nearest to it.
\<close>

definition init :: "string \<Rightarrow> string \<Rightarrow> bool \<Rightarrow> real \<Rightarrow> sim_bot" where
  "init symbol' interval' simulation_mode' initial_balance =
     \<lparr>simulation_mode = simulation_mode', symbol = symbol', interval = interval',
      quantity = fl 0.001, moving_avg_short = 20, moving_avg_long = 50,
      digital_balance = AList.update (replace_USDT symbol') 0 [(''USDT'', initial_balance)],
      trade_log = [], log_records = [], files = []\<rparr>"

text \<open>\<open>json.dump(self.trade_log, f, indent=4)\<close>, as the JSON value that is written.\<close>

definition trade_json :: "trade \<Rightarrow> json" where
  "trade_json t =
     JObject [(''type'', JString (trade_type t)),
              (''quantity'', JNumber (trade_quantity t)),
              (''price'', JNumber (trade_price t)),
              (''balance'', JObject (map (\<lambda>(k, v). (k, JNumber v)) (trade_balance t)))]"

definition json_dump :: "trade list \<Rightarrow> json" where
  "json_dump entries = JArray (map trade_json entries)"

text \<open>\<open>save_trade_log\<close> (lines 45-52); \<open>now\<close> is \<open>datetime.now().strftime("%Y%m%d_%H%M%S")\<close>.\<close>

definition save_trade_log :: "sim_bot \<Rightarrow> string \<Rightarrow> sim_bot" where
  "save_trade_log self now =
     (let filename = ''simulation_results/trade_log_'' @ now @ ''.json''
      in self\<lparr>files := AList.update filename (json_dump (trade_log self)) (files self)\<rparr>)"

text \<open>
  The body of \<open>place_order_simulation\<close> (lines 85-112). The method has no return
  statement: it returns None in every branch, and the second component of the result is
  the exception it raised, if any. A read of a missing key raises KeyError; what was
  assigned before the exception stays assigned. \<open>quantity * price\<close>, \<open>-=\<close> and \<open>+=\<close> are float
  operations on the balances, which are float values (an int balance below \<open>2 ^ 53\<close> is
  one). The closing \<open>log_current_balance\<close> call only writes info records.
\<close>

definition place_order_simulation ::
  "sim_bot \<Rightarrow> string \<Rightarrow> real \<Rightarrow> real \<Rightarrow> sim_bot \<times> py_error option" where
  "place_order_simulation self side quantity' price =
     (let base_asset = replace_USDT (symbol self) in
      if side = ''BUY'' then
        (let cost = fmul quantity' price in
         case map_of (digital_balance self) ''USDT'' of
           None \<Rightarrow> (self, Some KeyError)
         | Some usdt \<Rightarrow>
             if usdt \<ge> cost then
               (let self1 = self\<lparr>digital_balance :=
                              AList.update ''USDT'' (fsub usdt cost) (digital_balance self)\<rparr>
                in case map_of (digital_balance self1) base_asset of
                     None \<Rightarrow> (self1, Some KeyError)
                   | Some b \<Rightarrow>
                       (let self2 = self1\<lparr>digital_balance :=
                                      AList.update base_asset (fadd b quantity') (digital_balance self1)\<rparr>;
                            self3 = self2\<lparr>trade_log := trade_log self2 @
                                      [\<lparr>trade_type = ''BUY'', trade_quantity = quantity',
                                        trade_price = price,
                                        trade_balance = digital_balance self2\<rparr>]\<rparr>
                        in (self3, None)))
             else (self\<lparr>log_records := log_records self @
                      [Warning ''Not enough USDT for the simulated BUY order.'']\<rparr>, None))
      else if side = ''SELL'' then
        (case map_of (digital_balance self) base_asset of
           None \<Rightarrow> (self, Some KeyError)
         | Some b \<Rightarrow>
             if b \<ge> quantity' then
               (let self1 = self\<lparr>digital_balance :=
                              AList.update base_asset (fsub b quantity') (digital_balance self)\<rparr>
                in case map_of (digital_balance self1) ''USDT'' of
                     None \<Rightarrow> (self1, Some KeyError)
                   | Some usdt \<Rightarrow>
                       (let self2 = self1\<lparr>digital_balance :=
                                      AList.update ''USDT'' (fadd usdt (fmul quantity' price))
                                        (digital_balance self1)\<rparr>;
                            self3 = self2\<lparr>trade_log := trade_log self2 @
                                      [\<lparr>trade_type = ''SELL'', trade_quantity = quantity',
                                        trade_price = price,
                                        trade_balance = digital_balance self2\<rparr>]\<rparr>
                        in (self3, None)))
             else (self\<lparr>log_records := log_records self @
                      [Warning ''Not enough BTC for the simulated SELL order.'']\<rparr>, None))
      else (self, None))"

text \<open>A sequence of calls \<open>(side, quantity, price)\<close>, each made on the state the previous
  one left.\<close>

fun place_orders :: "sim_bot \<Rightarrow> (string \<times> real \<times> real) list \<Rightarrow> sim_bot" where
  "place_orders self [] = self"
| "place_orders self ((side, q, p) # calls) =
     place_orders (fst (place_order_simulation self side q p)) calls"

text \<open>
  What \<open>self.place_order_simulation\<close> finds. The \<open>def place_order_simulation\<close> of the
  source is indented inside \<open>calculate_signals\<close>, after both of its return statements
  (lines 79 and 83), so the class body defines six methods and \<open>__init__\<close> sets nine
  instance attributes; a name in neither list raises AttributeError.
\<close>

definition class_methods :: "string list" where
  "class_methods = [''__init__'', ''save_trade_log'', ''get_historical_data'',
     ''calculate_signals'', ''log_current_balance'', ''run_bot'']"

definition instance_attributes :: "string list" where
  "instance_attributes = [''logger'', ''simulation_mode'', ''symbol'', ''interval'',
     ''quantity'', ''moving_avg_short'', ''moving_avg_long'', ''digital_balance'',
     ''trade_log'']"

definition call_place_order_simulation ::
  "sim_bot \<Rightarrow> string \<Rightarrow> real \<Rightarrow> real \<Rightarrow> sim_bot \<times> py_error option" where
  "call_place_order_simulation self side quantity' price =
     (if ''place_order_simulation'' \<in> set (instance_attributes @ class_methods)
      then place_order_simulation self side quantity' price
      else (self, Some AttributeError))"

text \<open>
  One pass of the \<open>while True\<close> loop of \<open>run_bot\<close> (lines 136-172). Its inputs are the
  closes drawn by \<open>get_historical_data\<close> (the source draws \<open>moving_avg_long + 10\<close> of them)
  and the clock reading used for the file name. An exception raised in the try block is
  caught by the handler, which logs it; the pass returns the exception it caught.
\<close>

record sim_input =
  drawn_closes :: "real list"
  clock :: string

definition caught :: "sim_bot \<Rightarrow> py_error \<Rightarrow> sim_bot \<times> py_error option" where
  "caught self e =
     (self\<lparr>log_records := log_records self @ [Error ''Error in simulation loop: '' e]\<rparr>, Some e)"

definition run_cycle :: "sim_bot \<Rightarrow> sim_input \<Rightarrow> sim_bot \<times> py_error option" where
  "run_cycle self inp =
     (let df = calculate_signals (moving_avg_short self) (moving_avg_long self) (drawn_closes inp)
      in case iloc (signal df) (- 1) of
           Inl e \<Rightarrow> caught self e
         | Inr current_signal \<Rightarrow>
             (case iloc (signal df) (- 2) of
                Inl e \<Rightarrow> caught self e
              | Inr previous_signal \<Rightarrow>
                  (let (self1, raised) =
                     (if current_signal \<noteq> previous_signal then
                        (case iloc (close df) (- 1) of
                           Inl e \<Rightarrow> (self, Some e)
                         | Inr current_price \<Rightarrow>
                             if current_signal = 1 \<and> previous_signal = - 1 then
                               call_place_order_simulation self ''BUY'' (quantity self) current_price
                             else if current_signal = - 1 \<and> previous_signal = 1 then
                               call_place_order_simulation self ''SELL'' (quantity self) current_price
                             else (self, None))
                      else (self, None))
                   in case raised of
                        Some e \<Rightarrow> caught self1 e
                      | None \<Rightarrow> (save_trade_log self1 (clock inp), None))))"

text \<open>The loop never ends; \<open>run_bot self inputs\<close> is the state after the passes that
  consumed \<open>inputs\<close>, and \<open>run_bot_caught\<close> lists what each pass caught.\<close>

fun run_bot :: "sim_bot \<Rightarrow> sim_input list \<Rightarrow> sim_bot" where
  "run_bot self [] = self"
| "run_bot self (inp # inputs) = run_bot (fst (run_cycle self inp)) inputs"

fun run_bot_caught :: "sim_bot \<Rightarrow> sim_input list \<Rightarrow> py_error option list" where
  "run_bot_caught self [] = []"
| "run_bot_caught self (inp # inputs) =
     snd (run_cycle self inp) # run_bot_caught (fst (run_cycle self inp)) inputs"

text \<open>
  Predicates used to state the properties of \<open>place_order_simulation\<close>.
  \<open>has_keys\<close>: both keys that \<open>__init__\<close> creates are present. \<open>order_fills\<close>: the
  guard of the branch that trades (\<open>digital_balance["USDT"] >= cost\<close> for a BUY,
  \<open>digital_balance[base_asset] >= quantity\<close> for a SELL). \<open>filled_calls\<close>: the calls of
  a sequence whose guard holds when they are made, in call order.
\<close>

definition nonneg :: "(string \<times> real) list \<Rightarrow> bool" where
  "nonneg al = list_all (\<lambda>(k, v). 0 \<le> v) al"

definition has_keys :: "sim_bot \<Rightarrow> bool" where
  "has_keys self =
     (map_of (digital_balance self) ''USDT'' \<noteq> None \<and>
      map_of (digital_balance self) (replace_USDT (symbol self)) \<noteq> None)"

definition order_fills :: "sim_bot \<Rightarrow> string \<Rightarrow> real \<Rightarrow> real \<Rightarrow> bool" where
  "order_fills self side q p =
     (if side = ''BUY'' then
        (case map_of (digital_balance self) ''USDT'' of
           None \<Rightarrow> False | Some usdt \<Rightarrow> usdt \<ge> fmul q p)
      else if side = ''SELL'' then
        (case map_of (digital_balance self) (replace_USDT (symbol self)) of
           None \<Rightarrow> False | Some b \<Rightarrow> b \<ge> q)
      else False)"

fun filled_calls ::
  "sim_bot \<Rightarrow> (string \<times> real \<times> real) list \<Rightarrow> (string \<times> real \<times> real) list" where
  "filled_calls self [] = []"
| "filled_calls self ((side, q, p) # calls) =
     (if order_fills self side q p then [(side, q, p)] else []) @
     filled_calls (fst (place_order_simulation self side q p)) calls"

definition trade_call :: "trade \<Rightarrow> string \<times> real \<times> real" where
  "trade_call t = (trade_type t, trade_quantity t, trade_price t)"

section \<open>The live bot (trading_bot.py)\<close>

text \<open>
  The exchange is outside the program. \<open>submitted\<close> lists the calls of
  \<open>client.create_order\<close> as (symbol, side, quantity); what the exchange answers in one
  pass of the loop is the input of that pass: the close column of the klines (None when
  the try block of \<open>get_historical_data\<close> raises), the entries (asset, free, locked) of
  \<open>account['balances']\<close> (None when \<open>check_account_balance\<close> raises), and whether
  \<open>create_order\<close> returns. The CSV and order files are not modelled.
\<close>

record live_bot =
  live_symbol :: string
  live_interval :: string
  live_quantity :: real
  live_moving_avg_short :: nat
  live_moving_avg_long :: nat
  submitted :: "(string \<times> string \<times> real) list"
  live_log :: "log_record list"

record live_input =
  klines :: "real list option"
  account :: "(string \<times> real \<times> real) list option"
  order_accepted :: bool

definition init_live :: "string \<Rightarrow> string \<Rightarrow> live_bot" where
  "init_live symbol' interval' =
     \<lparr>live_symbol = symbol', live_interval = interval', live_quantity = 0.001,
      live_moving_avg_short = 20, live_moving_avg_long = 50, submitted = [], live_log = []\<rparr>"

definition log_live :: "live_bot \<Rightarrow> log_record \<Rightarrow> live_bot" where
  "log_live self r = self\<lparr>live_log := live_log self @ [r]\<rparr>"

definition get_historical_data :: "live_bot \<Rightarrow> live_input \<Rightarrow> live_bot \<times> real list option" where
  "get_historical_data self inp =
     (case klines inp of
        None \<Rightarrow> (log_live self (Error ''Error fetching historical data: '' ClientException), None)
      | Some closes \<Rightarrow> (self, Some closes))"

text \<open>\<open>check_account_balance\<close> (lines 114-139): the dict of the assets with
  \<open>free > 0 or locked > 0\<close>.\<close>

definition check_account_balance ::
  "live_bot \<Rightarrow> live_input \<Rightarrow> live_bot \<times> (string \<times> real \<times> real) list option" where
  "check_account_balance self inp =
     (case account inp of
        None \<Rightarrow> (log_live self (Error ''Error checking balance: '' ClientException), None)
      | Some entries \<Rightarrow> (self, Some (filter (\<lambda>(asset, free, locked). free > 0 \<or> locked > 0) entries)))"

text \<open>\<open>balances and asset in balances\<close>: None and the empty dict are falsy.\<close>

definition holds_asset :: "(string \<times> real \<times> real) list option \<Rightarrow> string \<Rightarrow> bool" where
  "holds_asset balances asset =
     (case balances of None \<Rightarrow> False | Some d \<Rightarrow> d \<noteq> [] \<and> asset \<in> set (map fst d))"

definition place_order :: "live_bot \<Rightarrow> string \<Rightarrow> real \<Rightarrow> live_input \<Rightarrow> live_bot" where
  "place_order self side quantity' inp =
     (let self1 = self\<lparr>submitted := submitted self @ [(live_symbol self, side, quantity')]\<rparr>
      in if order_accepted inp then self1
         else log_live self1 (Error ''Error placing order: '' ClientException))"

definition caught_live :: "live_bot \<Rightarrow> py_error \<Rightarrow> live_bot \<times> py_error option" where
  "caught_live self e = (log_live self (Error ''Error in main loop: '' e), Some e)"

text \<open>
  One pass of the loop of \<open>run_bot\<close> (lines 189-229). When \<open>calculate_signals\<close> returns None,
  \<open>save_market_data(None)\<close> raises AttributeError on \<open>df.to_csv\<close>.
\<close>

definition run_cycle_live :: "live_bot \<Rightarrow> live_input \<Rightarrow> live_bot \<times> py_error option" where
  "run_cycle_live self inp =
     (let (self1, fetched) = get_historical_data self inp
      in case fetched of
           None \<Rightarrow> (self1, None)
         | Some closes \<Rightarrow>
             (case calculate_signals_live (live_moving_avg_short self1)
                     (live_moving_avg_long self1) closes of
                None \<Rightarrow>
                  caught_live (log_live self1 (Error ''Error calculating signals: '' IndexError))
                    AttributeError
              | Some df \<Rightarrow>
                  (case iloc (signal df) (- 1) of
                     Inl e \<Rightarrow> caught_live self1 e
                   | Inr current_signal \<Rightarrow>
                       (case iloc (signal df) (- 2) of
                          Inl e \<Rightarrow> caught_live self1 e
                        | Inr previous_signal \<Rightarrow>
                            if current_signal \<noteq> previous_signal then
                              (let (self2, balances) = check_account_balance self1 inp
                               in if current_signal = 1 \<and> previous_signal = - 1 then
                                    (if holds_asset balances ''USDT''
                                     then (place_order self2 ''BUY'' (live_quantity self2) inp, None)
                                     else (self2, None))
                                  else if current_signal = - 1 \<and> previous_signal = 1 then
                                    (let base_asset = replace_USDT (live_symbol self2)
                                     in if holds_asset balances base_asset
                                        then (place_order self2 ''SELL'' (live_quantity self2) inp, None)
                                        else (self2, None))
                                  else (self2, None))
                            else (self1, None)))))"

fun run_bot_live :: "live_bot \<Rightarrow> live_input list \<Rightarrow> live_bot" where
  "run_bot_live self [] = self"
| "run_bot_live self (inp # inputs) = run_bot_live (fst (run_cycle_live self inp)) inputs"

text \<open>
  The orders one pass decides, written with \<open>cycle_action\<close> on the frame of that pass:
  a function of the constants of the bot and of the input of the pass, and of nothing
  else. The same for what a pass of the simulation bot catches.
\<close>

definition decided_orders ::
  "string \<Rightarrow> real \<Rightarrow> nat \<Rightarrow> nat \<Rightarrow> live_input \<Rightarrow> (string \<times> string \<times> real) list" where
  "decided_orders symbol' q S L inp =
     (case klines inp of
        None \<Rightarrow> []
      | Some closes \<Rightarrow>
          (case cycle_action (signal (calculate_signals S L closes)) of
             Inl e \<Rightarrow> []
           | Inr a \<Rightarrow>
               (let balances = map_option (filter (\<lambda>(asset, free, locked). free > 0 \<or> locked > 0))
                                 (account inp)
                in if a = ENTER_LONG \<and> holds_asset balances ''USDT'' then [(symbol', ''BUY'', q)]
                   else if a = EXIT_LONG \<and> holds_asset balances (replace_USDT symbol')
                     then [(symbol', ''SELL'', q)]
                   else [])))"

definition decided_catch :: "nat \<Rightarrow> nat \<Rightarrow> sim_input \<Rightarrow> py_error option" where
  "decided_catch S L inp =
     (case cycle_action (signal (calculate_signals S L (drawn_closes inp))) of
        Inl e \<Rightarrow> Some e
      | Inr a \<Rightarrow> if a = NONE then None else Some AttributeError)"

section \<open>Basic facts about the columns\<close>

lemma length_rolling_mean [simp]: "length (rolling_mean w xs) = length xs"
  by (simp add: rolling_mean_def)

lemma nth_rolling_mean:
  "i < length xs \<Longrightarrow> rolling_mean w xs ! i = window_mean w (take (Suc i) xs)"
  by (simp add: rolling_mean_def)

lemma length_signal [simp]: "length (signal (calculate_signals S L closes)) = length closes"
  by (simp add: calculate_signals_def Let_def)

lemma nth_signal:
  "i < length closes \<Longrightarrow>
   signal (calculate_signals S L closes) ! i =
     assign_signal (window_mean S (take (Suc i) closes)) (window_mean L (take (Suc i) closes))"
  by (simp add: calculate_signals_def Let_def nth_rolling_mean)

lemma nth_MA_short:
  "i < length closes \<Longrightarrow>
   MA_short (calculate_signals S L closes) ! i = window_mean S (take (Suc i) closes)"
  by (simp add: calculate_signals_def Let_def nth_rolling_mean)

lemma nth_MA_long:
  "i < length closes \<Longrightarrow>
   MA_long (calculate_signals S L closes) ! i = window_mean L (take (Suc i) closes)"
  by (simp add: calculate_signals_def Let_def nth_rolling_mean)

lemma iloc_last:
  "xs \<noteq> [] \<Longrightarrow> iloc xs (- 1) = Inr (xs ! (length xs - 1))"
  by (cases xs) (auto simp: iloc_def nat_diff_distrib)

lemma iloc_penultimate:
  "2 \<le> length xs \<Longrightarrow> iloc xs (- 2) = Inr (xs ! (length xs - 2))"
  by (auto simp: iloc_def nat_diff_distrib)

lemma iloc_short:
  "length xs < 2 \<Longrightarrow> iloc xs (- 2) = Inl IndexError"
  by (auto simp: iloc_def)

lemma closes_nonempty: "i < length closes \<Longrightarrow> closes \<noteq> []"
  by (cases closes) simp_all

lemma signal_nonempty: "closes \<noteq> [] \<Longrightarrow> signal (calculate_signals S L closes) \<noteq> []"
proof -
  assume "closes \<noteq> []"
  then have "length (signal (calculate_signals S L closes)) \<noteq> 0" by simp
  then show ?thesis by (simp only: length_0_conv not_False_eq_True)
qed

lemma window_mean_None: "window_mean w ys = None \<longleftrightarrow> w = 0 \<or> length ys < w"
  by (simp add: window_mean_def)

lemma iloc_last_rolling:
  assumes "closes \<noteq> []"
  shows "iloc (rolling_mean w closes) (- 1) = Inr (window_mean w closes)"
proof -
  have ne: "rolling_mean w closes \<noteq> []" using assms by (simp add: rolling_mean_def)
  have "length closes - 1 < length closes" using assms by (cases closes) simp_all
  then have "rolling_mean w closes ! (length closes - 1) =
               window_mean w (take (Suc (length closes - 1)) closes)"
    by (rule nth_rolling_mean)
  moreover have "Suc (length closes - 1) = length closes" using assms by (cases closes) simp_all
  ultimately show ?thesis using iloc_last [OF ne] by simp
qed

lemma sig_last:
  assumes "closes \<noteq> []"
  shows "iloc (signal (calculate_signals S L closes)) (- 1) =
           Inr (assign_signal (window_mean S closes) (window_mean L closes))"
proof -
  have n: "length closes - 1 < length closes" using assms by (cases closes) simp_all
  have e: "Suc (length closes - 1) = length closes" using assms by (cases closes) simp_all
  show ?thesis
    using iloc_last [OF signal_nonempty [OF assms, of S L]] nth_signal [OF n, of S L] e by simp
qed

lemma sig_penultimate:
  assumes "2 \<le> length closes"
  shows "iloc (signal (calculate_signals S L closes)) (- 2) =
           Inr (assign_signal (window_mean S (butlast closes)) (window_mean L (butlast closes)))"
proof -
  let ?sg = "signal (calculate_signals S L closes)"
  have n: "length closes - 2 < length closes" using assms by simp
  have e: "Suc (length closes - 2) = length closes - 1" using assms by simp
  show ?thesis using iloc_penultimate [of ?sg] nth_signal [OF n, of S L] e assms
    by (simp add: butlast_conv_take)
qed

lemma assign_signal_cases:
  "(assign_signal s l = UP \<longleftrightarrow> (\<exists>a b. s = Some a \<and> l = Some b \<and> a > b)) \<and>
   (assign_signal s l = DOWN \<longleftrightarrow> (\<exists>a b. s = Some a \<and> l = Some b \<and> a < b)) \<and>
   (assign_signal s l = FLAT \<longleftrightarrow> s = None \<or> l = None \<or> s = l)"
  by (auto simp: assign_signal_def nan_gt_def nan_lt_def UP_def DOWN_def FLAT_def Let_def
      split: option.splits)

lemma detect_cases:
  "(detectTransition p c = ENTER_LONG \<longleftrightarrow> p = DOWN \<and> c = UP) \<and>
   (detectTransition p c = EXIT_LONG \<longleftrightarrow> p = UP \<and> c = DOWN) \<and>
   (detectTransition p c = NONE \<longleftrightarrow> \<not> (p = DOWN \<and> c = UP) \<and> \<not> (p = UP \<and> c = DOWN))"
  by (auto simp: detectTransition_def UP_def DOWN_def)

lemma MA_cols:
  "MA_short (calculate_signals S L xs) = rolling_mean S xs"
  "MA_long (calculate_signals S L xs) = rolling_mean L xs"
  "close (calculate_signals S L xs) = xs"
  by (simp_all add: calculate_signals_def Let_def)

lemma iloc_penultimate_rolling:
  assumes "2 \<le> length closes"
  shows "iloc (rolling_mean w closes) (- 2) = Inr (window_mean w (butlast closes))"
proof -
  have "length closes - 2 < length closes" using assms by simp
  then have "rolling_mean w closes ! (length closes - 2) =
               window_mean w (take (Suc (length closes - 2)) closes)"
    by (rule nth_rolling_mean)
  moreover have "Suc (length closes - 2) = length closes - 1" using assms by simp
  ultimately show ?thesis using iloc_penultimate [of "rolling_mean w closes"] assms
    by (simp add: butlast_conv_take)
qed

lemma cycle_action_frame:
  assumes "2 \<le> length closes"
  shows "cycle_action (signal (calculate_signals S L closes)) =
     Inr (detectTransition
            (assign_signal (window_mean S (butlast closes)) (window_mean L (butlast closes)))
            (assign_signal (window_mean S closes) (window_mean L closes)))"
proof -
  have ne: "closes \<noteq> []" using assms by auto
  show ?thesis by (simp add: cycle_action_def sig_last [OF ne] sig_penultimate [OF assms])
qed

lemma c9_long: "window_mean 50 (replicate 49 100 @ [200]) = Some 102"
  by (simp add: window_mean_def sum_list_replicate)

lemma c9_short: "window_mean 20 (replicate 49 100 @ [200]) = Some 105"
  by (simp add: window_mean_def sum_list_replicate)

lemma c9_prev_long: "window_mean 50 (replicate 49 100) = None"
  by (simp add: window_mean_def)

lemma c9_prev_short: "window_mean 20 (replicate 49 100) = Some 100"
  by (simp add: window_mean_def sum_list_replicate)

section \<open>Claims about the signal engine\<close>

text \<open>
  C3. In every row of the frame the signal is UP exactly when both averages exist and
  the short one is greater, DOWN exactly when both exist and the short one is smaller,
  and FLAT exactly when one of them is NaN or the two are equal. The short (long)
  average of row \<open>i\<close> is NaN exactly when fewer than \<open>S\<close> (\<open>L\<close>) closes exist up to that
  row (or the window is 0). The signal run_bot evaluates is the one of the last row.
\<close>

theorem signal_rule:
  assumes "i < length closes"
  shows "(signal (calculate_signals S L closes) ! i = UP \<longleftrightarrow>
            (\<exists>a b. MA_short (calculate_signals S L closes) ! i = Some a \<and>
                   MA_long (calculate_signals S L closes) ! i = Some b \<and> a > b)) \<and>
         (signal (calculate_signals S L closes) ! i = DOWN \<longleftrightarrow>
            (\<exists>a b. MA_short (calculate_signals S L closes) ! i = Some a \<and>
                   MA_long (calculate_signals S L closes) ! i = Some b \<and> a < b)) \<and>
         (signal (calculate_signals S L closes) ! i = FLAT \<longleftrightarrow>
            MA_short (calculate_signals S L closes) ! i = None \<or>
            MA_long (calculate_signals S L closes) ! i = None \<or>
            MA_short (calculate_signals S L closes) ! i = MA_long (calculate_signals S L closes) ! i) \<and>
         (MA_short (calculate_signals S L closes) ! i = None \<longleftrightarrow> S = 0 \<or> Suc i < S) \<and>
         (MA_long (calculate_signals S L closes) ! i = None \<longleftrightarrow> L = 0 \<or> Suc i < L) \<and>
         (Suc i = length closes \<longrightarrow>
            iloc (signal (calculate_signals S L closes)) (- 1) =
              Inr (signal (calculate_signals S L closes) ! i))"
proof -
  have ne: "signal (calculate_signals S L closes) \<noteq> []"
    using closes_nonempty [OF assms] by (rule signal_nonempty)
  have len: "length (take (Suc i) closes) = Suc i" using assms by simp
  show ?thesis
    using assms iloc_last [OF ne] assign_signal_cases
    by (auto simp add: nth_signal nth_MA_short nth_MA_long window_mean_None len
        simp del: length_take)
qed

theorem signal_rule_witness:
  "(2::nat) < length [1, 2, 4 :: real] \<and>
   signal (calculate_signals 1 2 [1, 2, 4]) ! 2 = UP \<and>
   MA_short (calculate_signals 1 2 [1, 2, 4]) ! 2 = Some 4 \<and>
   MA_long (calculate_signals 1 2 [1, 2, 4]) ! 2 = Some 3 \<and>
   signal (calculate_signals 1 2 [1, 2, 4]) ! 0 = FLAT \<and>
   MA_long (calculate_signals 1 2 [1, 2, 4]) ! 0 = None \<and>
   iloc (signal (calculate_signals 1 2 [1, 2, 4])) (- 1) = Inr UP"
  using signal_rule [of 2 "[1, 2, 4]" 1 2] signal_rule [of 0 "[1, 2, 4]" 1 2]
  by (simp add: nth_MA_short nth_MA_long window_mean_def)

text \<open>
  C9, as the claim states it: on the closes \<open>[100]*49 + [200]\<close> with the windows 20 and 50
  of \<open>__init__\<close>, the long average would be about 102.04. The long average the code
  computes is 5100 / 50 = 102 exactly, which differs from 102.04 in the second decimal.
\<close>

theorem scenario_long_average_counterexample:
  "iloc (MA_long (calculate_signals (moving_avg_short (init ''BTCUSDT'' ''1h'' True 10000))
           (moving_avg_long (init ''BTCUSDT'' ''1h'' True 10000)) (replicate 49 100 @ [200]))) (- 1) =
     Inr (Some 102) \<and>
   \<not> \<bar>(102 :: real) - 102.04\<bar> \<le> 0.005"
  by (simp add: init_def MA_cols iloc_last_rolling c9_long)

text \<open>
  C9, amended: on the closes \<open>[100]*49 + [200]\<close> with the windows 20 and 50 the long
  average is exactly 102, the short average is 105, the current signal is UP, the
  previous row has no long average (49 closes) so the previous signal is FLAT, and the
  pair FLAT, UP is no edge: the action is NONE.
\<close>

theorem scenario_seeded_window:
  "moving_avg_short (init ''BTCUSDT'' ''1h'' True 10000) = 20 \<and>
   moving_avg_long (init ''BTCUSDT'' ''1h'' True 10000) = 50 \<and>
   iloc (MA_long (calculate_signals 20 50 (replicate 49 100 @ [200]))) (- 1) = Inr (Some 102) \<and>
   iloc (MA_short (calculate_signals 20 50 (replicate 49 100 @ [200]))) (- 1) = Inr (Some 105) \<and>
   iloc (signal (calculate_signals 20 50 (replicate 49 100 @ [200]))) (- 1) = Inr UP \<and>
   iloc (MA_long (calculate_signals 20 50 (replicate 49 100 @ [200]))) (- 2) = Inr None \<and>
   iloc (signal (calculate_signals 20 50 (replicate 49 100 @ [200]))) (- 2) = Inr FLAT \<and>
   detectTransition FLAT UP = NONE \<and>
   cycle_action (signal (calculate_signals 20 50 (replicate 49 100 @ [200]))) = Inr NONE"
proof -
  have len: "2 \<le> length (replicate 49 (100 :: real) @ [200])" by simp
  have ne: "replicate 49 (100 :: real) @ [200] \<noteq> []" by simp
  have bl: "butlast (replicate 49 (100 :: real) @ [200]) = replicate 49 100" by simp
  have cur: "assign_signal (Some 105) (Some 102) = UP"
    by (simp add: assign_signal_def nan_gt_def nan_lt_def UP_def)
  have prev: "assign_signal (Some 100) None = FLAT"
    by (simp add: assign_signal_def nan_gt_def nan_lt_def FLAT_def)
  have none: "detectTransition FLAT UP = NONE"
    by (simp add: detectTransition_def FLAT_def UP_def)
  show ?thesis
    unfolding MA_cols
    by (simp only: iloc_last_rolling [OF ne] iloc_penultimate_rolling [OF len]
        sig_last [OF ne] sig_penultimate [OF len] cycle_action_frame [OF len]
        bl c9_long c9_short c9_prev_long c9_prev_short cur prev none)
      (simp add: init_def)
qed

section \<open>Facts about float rounding\<close>

lemma round_even_nonneg: "0 \<le> y \<Longrightarrow> 0 \<le> round_even y"
  by (auto simp: round_even_def Let_def)

lemma round_even_of_int [simp]: "round_even (of_int n) = n"
  by (simp add: round_even_def Let_def)


lemma fl_zero [simp]: "fl 0 = 0"
  by (simp add: fl_def)

lemma fl_nonneg: "0 \<le> x \<Longrightarrow> 0 \<le> fl x"
  by (auto simp: fl_def Let_def intro!: mult_nonneg_nonneg round_even_nonneg divide_nonneg_nonneg)

lemma powi_bounds:
  assumes "x \<noteq> 0"
  shows "2 powi \<lfloor>log 2 \<bar>x\<bar>\<rfloor> \<le> \<bar>x\<bar> \<and> \<bar>x\<bar> < 2 powi (\<lfloor>log 2 \<bar>x\<bar>\<rfloor> + 1)"
proof -
  have pos: "0 < \<bar>x\<bar>" using assms by simp
  from floor_log_eq_powr_iff [of "\<bar>x\<bar>" 2 "\<lfloor>log 2 \<bar>x\<bar>\<rfloor>"] pos
  have "2 powr (real_of_int \<lfloor>log 2 \<bar>x\<bar>\<rfloor>) \<le> \<bar>x\<bar> \<and>
        \<bar>x\<bar> < 2 powr (real_of_int \<lfloor>log 2 \<bar>x\<bar>\<rfloor> + 1)"
    by simp
  then show ?thesis
    using powr_real_of_int' [of 2 "\<lfloor>log 2 \<bar>x\<bar>\<rfloor>"] powr_real_of_int' [of 2 "\<lfloor>log 2 \<bar>x\<bar>\<rfloor> + 1"]
    by simp
qed

lemma floor_log2:
  assumes "2 powi k \<le> \<bar>x\<bar>" "\<bar>x\<bar> < 2 powi (k + 1)"
  shows "\<lfloor>log 2 \<bar>x\<bar>\<rfloor> = k"
proof -
  have "(0::real) < 2 powi k" by simp
  then have pos: "0 < \<bar>x\<bar>" using assms(1) by linarith
  have "2 powr (real_of_int k) \<le> \<bar>x\<bar>" using assms(1) by (simp add: powr_real_of_int')
  moreover have "\<bar>x\<bar> < 2 powr (real_of_int k + 1)"
    using assms(2) powr_real_of_int' [of 2 "k + 1"] by simp
  ultimately show ?thesis using floor_log_eq_powr_iff [of "\<bar>x\<bar>" 2 k] pos by simp
qed

lemma fl_at:
  assumes "2 powi k \<le> \<bar>x\<bar>" "\<bar>x\<bar> < 2 powi (k + 1)"
  shows "fl x = of_int (round_even (x / 2 powi (k - 52))) * 2 powi (k - 52)"
proof -
  have "(0::real) < 2 powi k" by simp
  then have "0 < \<bar>x\<bar>" using assms(1) by linarith
  then have "x \<noteq> 0" by simp
  then show ?thesis using floor_log2 [OF assms] by (simp add: fl_def Let_def)
qed


text \<open>A number with a significand of at most 53 bits is a float: rounding leaves it as it is.\<close>

lemma fl_exact:
  assumes "\<bar>m\<bar> < 2 ^ 53"
  shows "fl (of_int m * 2 powi j) = of_int m * 2 powi j"
proof (cases "m = 0")
  case True
  then show ?thesis by simp
next
  case False
  define x :: real where "x = of_int m * 2 powi j"
  define k where "k = \<lfloor>log 2 \<bar>x\<bar>\<rfloor>"
  have x0: "x \<noteq> 0" using False by (simp add: x_def)
  have absx: "\<bar>x\<bar> = of_int \<bar>m\<bar> * 2 powi j" by (simp add: x_def abs_mult)
  have "of_int \<bar>m\<bar> < (2::real) ^ 53" using assms by (metis of_int_less_numeral_power_cancel_iff)
  then have "\<bar>x\<bar> < 2 ^ 53 * 2 powi j" unfolding absx by (simp add: mult_strict_right_mono)
  also have "\<dots> = 2 powi (53 + j)" by (simp add: power_int_add)
  finally have hi: "\<bar>x\<bar> < 2 powi (53 + j)" .
  have "2 powi k \<le> \<bar>x\<bar>" using powi_bounds [OF x0] by (simp add: k_def)
  with hi have "(2::real) powi k < 2 powi (53 + j)" by linarith
  have "k < 53 + j"
  proof (rule ccontr)
    assume "\<not> k < 53 + j"
    then have "53 + j \<le> k" by simp
    then have "(2::real) powi (53 + j) \<le> 2 powi k" by (intro power_int_increasing) simp_all
    with \<open>(2::real) powi k < 2 powi (53 + j)\<close> show False by simp
  qed
  then have "0 \<le> j - (k - 52)" by simp
  then obtain n :: nat where n: "j - (k - 52) = int n"
    using nonneg_int_cases by blast
  have "x / 2 powi (k - 52) = of_int m * 2 powi (j - (k - 52))"
    by (simp add: x_def power_int_diff)
  also have "\<dots> = of_int (m * 2 ^ n)" by (simp add: n power_int_def)
  finally have "round_even (x / 2 powi (k - 52)) = m * 2 ^ n" by (simp only: round_even_of_int)
  then have "fl x = of_int (m * 2 ^ n) * 2 powi (k - 52)"
    using x0 by (simp add: fl_def Let_def k_def)
  also have "\<dots> = of_int m * (2 powi (int n) * 2 powi (k - 52))" by (simp add: power_int_def)
  also have "2 powi (int n) * 2 powi (k - 52) = (2::real) powi j"
  proof -
    have "(2::real) powi (int n) * 2 powi (k - 52) = 2 powi (int n + (k - 52))"
      by (simp only: power_int_add [where x = "2::real", simplified])
    also have "int n + (k - 52) = j" using n by simp
    finally show ?thesis .
  qed
  finally show ?thesis by (simp add: x_def)
qed

lemma fl_int: "\<bar>m\<bar> < 2 ^ 53 \<Longrightarrow> fl (of_int m) = of_int m"
  using fl_exact [of m 0] by simp

lemma fl_dyadic: "\<bar>m\<bar> < 2 ^ 53 \<Longrightarrow> fl (of_int m / 2 ^ n) = of_int m / 2 ^ n"
  using fl_exact [of m "- int n"] by (simp add: power_int_minus field_simps)

lemma fl_numeral: "numeral n < (2::int) ^ 53 \<Longrightarrow> fl (numeral n) = numeral n"
  using fl_int [of "numeral n"] by simp

lemma fl_one [simp]: "fl 1 = 1"
  using fl_int [of 1] by simp

text \<open>The floats written 0.001, 0.1 and 0.2, and the operations on them used below.\<close>

lemma fl_001: "fl 0.001 = 1152921504606847 / 2 ^ 60"
  by (subst fl_at [where k = "- 10"]) (simp_all add: round_even_def Let_def power_int_minus)



lemma fl_001_pos: "0 < fl 0.001"
  unfolding fl_001 by simp

lemma fl_fl_001: "fl (fl 0.001) = fl 0.001"
  unfolding fl_001 using fl_dyadic [of 1152921504606847 60] by simp


lemma cost_001:
  "fmul (fl 0.001) 50000 = 50"
  "fmul (fl 0.001) 60000 = 60"
  "fmul (fl 0.001) 40000 = 40"
  "fmul (fl 0.001) 200000 = 200"
  unfolding fmul_def fl_001
  by ((subst fl_at [where k = 5]), simp_all add: round_even_def Let_def power_int_minus,
      (subst fl_at [where k = 5]), simp_all add: round_even_def Let_def power_int_minus,
      (subst fl_at [where k = 5]), simp_all add: round_even_def Let_def power_int_minus,
      (subst fl_at [where k = 7]), simp_all add: round_even_def Let_def power_int_minus)

lemma ops_001:
  "fsub 100 50 = 50"
  "fsub 10000 50 = 9950"
  "fadd 0 (fl 0.001) = fl 0.001"
  "fsub (fl 0.001) (fl 0.001) = 0"
  "fadd 50 40 = 90"
  using fl_fl_001 by (simp_all add: fsub_def fadd_def fl_numeral)



section \<open>Facts about the simulation bot\<close>

lemma has_keys_init: "has_keys (init s iv sm bal)"
  by (simp add: has_keys_def init_def)

lemma symbol_place_order: "symbol (fst (place_order_simulation self side q p)) = symbol self"
  by (auto simp: place_order_simulation_def Let_def split: option.splits)

lemma has_keys_place_order:
  "has_keys self \<Longrightarrow> has_keys (fst (place_order_simulation self side q p))"
  unfolding has_keys_def symbol_place_order
  by (auto simp: place_order_simulation_def Let_def update_conv' split: option.splits)

lemma nonneg_update: "nonneg al \<Longrightarrow> 0 \<le> v \<Longrightarrow> nonneg (AList.update k v al)"
  by (induction al) (auto simp: nonneg_def)

lemma nonneg_lookup: "nonneg al \<Longrightarrow> map_of al k = Some v \<Longrightarrow> 0 \<le> v"
  by (induction al) (auto simp: nonneg_def split: if_splits)

lemma place_order_nonneg:
  assumes "nonneg (digital_balance self)" "0 < q" "0 < p"
  shows "nonneg (digital_balance (fst (place_order_simulation self side q p)))"
proof -
  have qp: "0 \<le> fmul q p" using assms by (simp add: fmul_def fl_nonneg)
  have sub: "y \<le> x \<Longrightarrow> 0 \<le> fsub x y" for x y by (simp add: fsub_def fl_nonneg)
  have add: "0 \<le> x \<Longrightarrow> 0 \<le> y \<Longrightarrow> 0 \<le> fadd x y" for x y by (simp add: fadd_def fl_nonneg)
  show ?thesis
    using assms qp
    by (auto simp: place_order_simulation_def Let_def update_conv'
        intro!: nonneg_update sub add dest: nonneg_lookup split: option.splits if_splits)
qed

lemma files_place_order: "files (fst (place_order_simulation self side q p)) = files self"
  by (auto simp: place_order_simulation_def Let_def split: option.splits)

lemma files_place_orders: "files (place_orders self calls) = files self"
  by (induction self calls rule: place_orders.induct) (simp_all add: files_place_order)

lemma trade_log_place_order:
  assumes "has_keys self"
  shows "trade_log (fst (place_order_simulation self side q p)) =
           trade_log self @
           (if order_fills self side q p
            then [\<lparr>trade_type = side, trade_quantity = q, trade_price = p,
                   trade_balance = digital_balance (fst (place_order_simulation self side q p))\<rparr>]
            else [])"
  using assms
  by (auto simp: has_keys_def order_fills_def place_order_simulation_def Let_def update_conv'
      split: option.splits)

lemma trade_log_place_orders:
  "has_keys self \<Longrightarrow>
   (\<exists>new. trade_log (place_orders self calls) = trade_log self @ new \<and>
          map trade_call new = filled_calls self calls)"
proof (induction self calls rule: place_orders.induct)
  case (1 self)
  then show ?case by simp
next
  case (2 self side q p calls)
  let ?s = "fst (place_order_simulation self side q p)"
  from 2 have "has_keys ?s" by (simp add: has_keys_place_order)
  with 2 obtain new where n: "trade_log (place_orders ?s calls) = trade_log ?s @ new"
    "map trade_call new = filled_calls ?s calls" by blast
  let ?e = "\<lparr>trade_type = side, trade_quantity = q, trade_price = p,
             trade_balance = digital_balance ?s\<rparr>"
  let ?first = "if order_fills self side q p then [?e] else []"
  have c: "trade_call ?e = (side, q, p)" by (simp add: trade_call_def)
  have "trade_log (place_orders self ((side, q, p) # calls)) = trade_log self @ (?first @ new)"
    using n(1) trade_log_place_order [OF "2.prems", of side q p] by simp
  moreover have "map trade_call (?first @ new) = filled_calls self ((side, q, p) # calls)"
    using n(2) c by simp
  ultimately show ?case by blast
qed

lemma no_method: "''place_order_simulation'' \<notin> set (instance_attributes @ class_methods)"
  by (simp add: instance_attributes_def class_methods_def)

lemma call_raises: "call_place_order_simulation self side q p = (self, Some AttributeError)"
  using no_method by (simp add: call_place_order_simulation_def)

lemma run_cycle_cases:
  "run_cycle self inp = (save_trade_log self (clock inp), None) \<or>
   (\<exists>e. run_cycle self inp = caught self e)"
  by (auto simp: run_cycle_def Let_def call_raises
      split: sum.splits option.splits prod.splits if_splits)

lemma run_cycle_keeps:
  "digital_balance (fst (run_cycle self inp)) = digital_balance self \<and>
   trade_log (fst (run_cycle self inp)) = trade_log self \<and>
   moving_avg_short (fst (run_cycle self inp)) = moving_avg_short self \<and>
   moving_avg_long (fst (run_cycle self inp)) = moving_avg_long self"
  using run_cycle_cases [of self inp]
  by (auto simp: caught_def save_trade_log_def Let_def)

lemma run_bot_keeps:
  "digital_balance (run_bot self inputs) = digital_balance self \<and>
   trade_log (run_bot self inputs) = trade_log self"
  by (induction inputs arbitrary: self) (simp_all add: run_cycle_keeps)

lemma run_cycle_reads:
  assumes "cycle_action (signal (calculate_signals (moving_avg_short self) (moving_avg_long self)
             (drawn_closes inp))) = Inr a"
  shows "\<exists>c p price.
           iloc (signal (calculate_signals (moving_avg_short self) (moving_avg_long self)
             (drawn_closes inp))) (- 1) = Inr c \<and>
           iloc (signal (calculate_signals (moving_avg_short self) (moving_avg_long self)
             (drawn_closes inp))) (- 2) = Inr p \<and>
           iloc (close (calculate_signals (moving_avg_short self) (moving_avg_long self)
             (drawn_closes inp))) (- 1) = Inr price \<and>
           a = detectTransition p c"
proof -
  let ?df = "calculate_signals (moving_avg_short self) (moving_avg_long self) (drawn_closes inp)"
  from assms obtain c p where c: "iloc (signal ?df) (- 1) = Inr c"
    and p: "iloc (signal ?df) (- 2) = Inr p" and a: "a = detectTransition p c"
    by (auto simp: cycle_action_def split: sum.splits)
  have "length (signal ?df) \<noteq> 0" using c by (auto simp: iloc_def split: if_splits)
  then have "drawn_closes inp \<noteq> []" by simp
  then have "close ?df \<noteq> []" by (simp add: MA_cols)
  then obtain price where "iloc (close ?df) (- 1) = Inr price"
    using iloc_last by blast
  with c p a show ?thesis by blast
qed

lemma run_cycle_fires:
  assumes "cycle_action (signal (calculate_signals (moving_avg_short self) (moving_avg_long self)
             (drawn_closes inp))) = Inr a" and "a \<noteq> NONE"
  shows "run_cycle self inp = caught self AttributeError"
proof -
  let ?df = "calculate_signals (moving_avg_short self) (moving_avg_long self) (drawn_closes inp)"
  from run_cycle_reads [OF assms(1)] obtain c p price
    where c: "iloc (signal ?df) (- 1) = Inr c" and p: "iloc (signal ?df) (- 2) = Inr p"
      and pr: "iloc (close ?df) (- 1) = Inr price" and a: "a = detectTransition p c"
    by blast
  from a assms(2) have "c \<noteq> p \<and> (c = 1 \<and> p = - 1 \<or> c = - 1 \<and> p = 1)"
    by (auto simp: detectTransition_def split: if_splits)
  then show ?thesis
    using c p pr by (auto simp: run_cycle_def Let_def call_raises)
qed

lemma run_cycle_quiet:
  assumes "cycle_action (signal (calculate_signals (moving_avg_short self) (moving_avg_long self)
             (drawn_closes inp))) = Inr NONE"
  shows "run_cycle self inp = (save_trade_log self (clock inp), None)"
proof -
  let ?df = "calculate_signals (moving_avg_short self) (moving_avg_long self) (drawn_closes inp)"
  from run_cycle_reads [OF assms] obtain c p price
    where c: "iloc (signal ?df) (- 1) = Inr c" and p: "iloc (signal ?df) (- 2) = Inr p"
      and pr: "iloc (close ?df) (- 1) = Inr price" and a: "NONE = detectTransition p c"
    by blast
  from a have "c = p \<or> \<not> (c = 1 \<and> p = - 1) \<and> \<not> (c = - 1 \<and> p = 1)"
    by (auto simp: detectTransition_def split: if_splits)
  then show ?thesis
    using c p pr by (auto simp: run_cycle_def Let_def call_raises)
qed

lemma run_cycle_index:
  assumes "cycle_action (signal (calculate_signals (moving_avg_short self) (moving_avg_long self)
             (drawn_closes inp))) = Inl e"
  shows "run_cycle self inp = caught self e"
  using assms by (auto simp: run_cycle_def cycle_action_def split: sum.splits)

lemma frame_sim:
  "window_mean 20 (replicate 39 200 @ replicate 20 100 @ [3000]) = Some 245"
  "window_mean 50 (replicate 39 200 @ replicate 20 100 @ [3000]) = Some 216"
  "window_mean 20 (replicate 39 200 @ replicate 20 100 @ [4000]) = Some 295"
  "window_mean 50 (replicate 39 200 @ replicate 20 100 @ [4000]) = Some 236"
  "window_mean 20 (replicate 39 200 @ replicate 20 100) = Some 100"
  "window_mean 50 (replicate 39 200 @ replicate 20 100) = Some 160"
  by (simp_all add: window_mean_def sum_list_replicate)

lemma sig_vals:
  "assign_signal (Some 245) (Some 216) = UP"
  "assign_signal (Some 295) (Some 236) = UP"
  "assign_signal (Some 100) (Some 160) = DOWN"
  by (simp_all add: assign_signal_def nan_gt_def nan_lt_def UP_def DOWN_def)

lemma frame_sim_action:
  "cycle_action (signal (calculate_signals 20 50 (replicate 39 200 @ replicate 20 100 @ [3000]))) =
     Inr ENTER_LONG"
  "cycle_action (signal (calculate_signals 20 50 (replicate 39 200 @ replicate 20 100 @ [4000]))) =
     Inr ENTER_LONG"
proof -
  have l1: "2 \<le> length (replicate 39 (200::real) @ replicate 20 100 @ [3000])" by simp
  have l2: "2 \<le> length (replicate 39 (200::real) @ replicate 20 100 @ [4000])" by simp
  have b1: "butlast (replicate 39 (200::real) @ replicate 20 100 @ [3000]) =
              replicate 39 200 @ replicate 20 100"
    by (simp add: butlast_append)
  have b2: "butlast (replicate 39 (200::real) @ replicate 20 100 @ [4000]) =
              replicate 39 200 @ replicate 20 100"
    by (simp add: butlast_append)
  have e: "detectTransition DOWN UP = ENTER_LONG"
    by (simp add: detectTransition_def UP_def DOWN_def)
  show "cycle_action (signal (calculate_signals 20 50
          (replicate 39 200 @ replicate 20 100 @ [3000]))) = Inr ENTER_LONG"
    by (simp only: cycle_action_frame [OF l1] b1 frame_sim sig_vals e)
  show "cycle_action (signal (calculate_signals 20 50
          (replicate 39 200 @ replicate 20 100 @ [4000]))) = Inr ENTER_LONG"
    by (simp only: cycle_action_frame [OF l2] b2 frame_sim sig_vals e)
qed

lemma log_records_run_cycle:
  "log_records (fst (run_cycle self inp)) =
     log_records self @
     (case decided_catch (moving_avg_short self) (moving_avg_long self) inp of
        None \<Rightarrow> [] | Some e \<Rightarrow> [Error ''Error in simulation loop: '' e])"
proof (cases "cycle_action (signal (calculate_signals (moving_avg_short self) (moving_avg_long self)
             (drawn_closes inp)))")
  case (Inl e)
  then show ?thesis by (simp add: decided_catch_def run_cycle_index caught_def)
next
  case (Inr a)
  show ?thesis
  proof (cases "a = NONE")
    case True
    then show ?thesis using Inr
      by (simp add: decided_catch_def run_cycle_quiet save_trade_log_def Let_def)
  next
    case False
    then show ?thesis using Inr run_cycle_fires [OF Inr False]
      by (simp add: decided_catch_def caught_def)
  qed
qed

lemma log_records_run_bot:
  "log_records (run_bot self inputs) =
     log_records self @
     concat (map (\<lambda>inp. case decided_catch (moving_avg_short self) (moving_avg_long self) inp of
                          None \<Rightarrow> [] | Some e \<Rightarrow> [Error ''Error in simulation loop: '' e]) inputs)"
proof (induction inputs arbitrary: self)
  case Nil
  then show ?case by simp
next
  case (Cons inp inputs)
  show ?case
    using Cons.IH [of "fst (run_cycle self inp)"] run_cycle_keeps [of self inp]
    by (simp add: log_records_run_cycle)
qed

section \<open>Claims about the simulated ledger\<close>

text \<open>
  The claims of this section are about the body of \<open>place_order_simulation\<close> as the
  source writes it; that \<open>run_bot\<close> cannot reach it is the subject of C10.
\<close>

text \<open>
  C2, as the claim states it: a BUY that the USDT balance does not cover returns the
  error InsufficientFunds. With USDT 10 a BUY of 0.001 at 50000 costs 50 and is
  refused, and the method raises nothing and returns what it returns for the same BUY
  on USDT 100, which is filled: None.
\<close>

theorem refused_order_returns_no_error_counterexample:
  "map_of (digital_balance (init ''BTCUSDT'' ''1h'' True 10)) ''USDT'' = Some 10 \<and>
   10 < fmul (fl 0.001) 50000 \<and>
   snd (place_order_simulation (init ''BTCUSDT'' ''1h'' True 10) ''BUY'' (fl 0.001) 50000) = None \<and>
   fmul (fl 0.001) 50000 \<le> 100 \<and>
   snd (place_order_simulation (init ''BTCUSDT'' ''1h'' True 100) ''BUY'' (fl 0.001) 50000) = None"
  using cost_001 ops_001 by (simp add: place_order_simulation_def init_def Let_def)

text \<open>
  C2, amended: a BUY whose cost (the float product of quantity and price) exceeds the
  USDT balance, and a SELL of more than the base balance, raise nothing and return
  None; they change nothing but the log: the state afterwards is the state before with
  one warning record added. No balance entry changes and no trade is logged.
\<close>

theorem insufficient_funds_all_or_nothing:
  "(map_of (digital_balance self) ''USDT'' = Some usdt \<and> usdt < fmul q p \<longrightarrow>
      place_order_simulation self ''BUY'' q p =
        (self\<lparr>log_records := log_records self @
           [Warning ''Not enough USDT for the simulated BUY order.'']\<rparr>, None) \<and>
      digital_balance (fst (place_order_simulation self ''BUY'' q p)) = digital_balance self \<and>
      trade_log (fst (place_order_simulation self ''BUY'' q p)) = trade_log self) \<and>
   (map_of (digital_balance self) (replace_USDT (symbol self)) = Some b \<and> b < q \<longrightarrow>
      place_order_simulation self ''SELL'' q p =
        (self\<lparr>log_records := log_records self @
           [Warning ''Not enough BTC for the simulated SELL order.'']\<rparr>, None) \<and>
      digital_balance (fst (place_order_simulation self ''SELL'' q p)) = digital_balance self \<and>
      trade_log (fst (place_order_simulation self ''SELL'' q p)) = trade_log self)"
  by (simp add: place_order_simulation_def Let_def)

theorem insufficient_funds_all_or_nothing_witness:
  "map_of (digital_balance (init ''BTCUSDT'' ''1h'' True 10)) ''USDT'' = Some 10 \<and>
   10 < fmul (fl 0.001) 50000 \<and>
   digital_balance (fst (place_order_simulation (init ''BTCUSDT'' ''1h'' True 10) ''BUY''
     (fl 0.001) 50000)) = [(''USDT'', 10), (''BTC'', 0)] \<and>
   log_records (fst (place_order_simulation (init ''BTCUSDT'' ''1h'' True 10) ''BUY''
     (fl 0.001) 50000)) = [Warning ''Not enough USDT for the simulated BUY order.''] \<and>
   map_of (digital_balance (init ''BTCUSDT'' ''1h'' True 10))
     (replace_USDT (symbol (init ''BTCUSDT'' ''1h'' True 10))) = Some 0 \<and>
   0 < fl 0.001 \<and>
   digital_balance (fst (place_order_simulation (init ''BTCUSDT'' ''1h'' True 10) ''SELL''
     (fl 0.001) 50000)) = [(''USDT'', 10), (''BTC'', 0)] \<and>
   trade_log (fst (place_order_simulation (init ''BTCUSDT'' ''1h'' True 10) ''SELL''
     (fl 0.001) 50000)) = []"
proof -
  have u: "map_of (digital_balance (init ''BTCUSDT'' ''1h'' True 10)) ''USDT'' = Some 10"
    and b: "map_of (digital_balance (init ''BTCUSDT'' ''1h'' True 10))
              (replace_USDT (symbol (init ''BTCUSDT'' ''1h'' True 10))) = Some 0"
    and d: "digital_balance (init ''BTCUSDT'' ''1h'' True 10) = [(''USDT'', 10), (''BTC'', 0)]"
    and t: "trade_log (init ''BTCUSDT'' ''1h'' True 10) = []"
    and l: "log_records (init ''BTCUSDT'' ''1h'' True 10) = []"
    by (simp_all add: init_def)
  have c: "10 < fmul (fl 0.001) 50000" using cost_001 by simp
  note inst = insufficient_funds_all_or_nothing
    [of "init ''BTCUSDT'' ''1h'' True 10" 10 "fl 0.001" 50000 0]
  from inst u c
  have buy: "place_order_simulation (init ''BTCUSDT'' ''1h'' True 10) ''BUY'' (fl 0.001) 50000 =
        ((init ''BTCUSDT'' ''1h'' True 10)\<lparr>log_records := log_records (init ''BTCUSDT'' ''1h'' True 10) @
           [Warning ''Not enough USDT for the simulated BUY order.'']\<rparr>, None)"
    by blast
  from inst b fl_001_pos
  have sell: "place_order_simulation (init ''BTCUSDT'' ''1h'' True 10) ''SELL'' (fl 0.001) 50000 =
        ((init ''BTCUSDT'' ''1h'' True 10)\<lparr>log_records := log_records (init ''BTCUSDT'' ''1h'' True 10) @
           [Warning ''Not enough BTC for the simulated SELL order.'']\<rparr>, None)"
    by blast
  show ?thesis
    unfolding buy sell using u b c d t l fl_001_pos by simp
qed




text \<open>
  C7. If no balance entry is negative, then after any sequence of calls with positive
  quantity and positive price no balance entry is negative.
\<close>

theorem balances_stay_nonnegative:
  "nonneg (digital_balance self) \<Longrightarrow> list_all (\<lambda>(side, q, p). 0 < q \<and> 0 < p) calls \<Longrightarrow>
   nonneg (digital_balance (place_orders self calls))"
  by (induction self calls rule: place_orders.induct) (auto simp: place_order_nonneg)

theorem balances_stay_nonnegative_witness:
  "nonneg (digital_balance (init ''BTCUSDT'' ''1h'' True 100)) \<and>
   list_all (\<lambda>(side, q, p). 0 < q \<and> 0 < p)
     [(''BUY'', fl 0.001, 50000 :: real), (''BUY'', fl 0.001, 60000), (''SELL'', fl 0.001, 40000)] \<and>
   nonneg (digital_balance (place_orders (init ''BTCUSDT'' ''1h'' True 100)
     [(''BUY'', fl 0.001, 50000 :: real), (''BUY'', fl 0.001, 60000), (''SELL'', fl 0.001, 40000)])) \<and>
   digital_balance (place_orders (init ''BTCUSDT'' ''1h'' True 100)
     [(''BUY'', fl 0.001, 50000), (''BUY'', fl 0.001, 60000), (''SELL'', fl 0.001, 40000)]) =
     [(''USDT'', 90), (''BTC'', 0)]"
proof -
  have a: "nonneg (digital_balance (init ''BTCUSDT'' ''1h'' True 100))"
    by (simp add: nonneg_def init_def)
  have b: "list_all (\<lambda>(side, q, p). 0 < q \<and> 0 < p)
     [(''BUY'', fl 0.001, 50000 :: real), (''BUY'', fl 0.001, 60000), (''SELL'', fl 0.001, 40000)]"
    using fl_001_pos by simp
  have c: "digital_balance (place_orders (init ''BTCUSDT'' ''1h'' True 100)
     [(''BUY'', fl 0.001, 50000), (''BUY'', fl 0.001, 60000), (''SELL'', fl 0.001, 40000)]) =
     [(''USDT'', 90), (''BTC'', 0)]"
    using cost_001 ops_001 by (simp add: place_order_simulation_def init_def Let_def)
  from a b c balances_stay_nonnegative [OF a b] show ?thesis by blast
qed

text \<open>
  C8, as the claim states it: the entry of a filled order is handed to the durable
  recorder before apply returns. A filled BUY returns with one entry in \<open>trade_log\<close>
  and with the directory of saved logs as it was, here empty: the method writes no file.
\<close>

theorem entry_not_stored_when_order_returns_counterexample:
  "order_fills (init ''BTCUSDT'' ''1h'' True 100) ''BUY'' (fl 0.001) 50000 \<and>
   length (trade_log (fst (place_order_simulation (init ''BTCUSDT'' ''1h'' True 100) ''BUY''
     (fl 0.001) 50000))) = 1 \<and>
   files (fst (place_order_simulation (init ''BTCUSDT'' ''1h'' True 100) ''BUY''
     (fl 0.001) 50000)) = []"
  using cost_001 ops_001
  by (simp add: order_fills_def place_order_simulation_def init_def Let_def)

text \<open>
  C8, amended: on a state that has both keys of \<open>__init__\<close>, a call whose guard holds
  appends exactly one entry to the list \<open>trade_log\<close> before it returns, holding the side,
  quantity and price of the call and a copy of the balances as the call leaves them; a
  call whose guard fails appends nothing; no call writes a file. After a sequence of
  calls the list is the list before, unchanged, followed by one entry per filled call
  in call order. The list reaches the store only through \<open>save_trade_log\<close>, which run_bot
  calls at the end of a pass that raised nothing: it writes the whole list, in order, as
  one JSON array of objects with the keys type, quantity, price and balance, under a
  file name made from the clock. The source has no code that reads a saved log.
\<close>

theorem trade_log_records_each_fill:
  assumes "has_keys self"
  shows "trade_log (fst (place_order_simulation self side q p)) =
           trade_log self @
           (if order_fills self side q p
            then [\<lparr>trade_type = side, trade_quantity = q, trade_price = p,
                   trade_balance = digital_balance (fst (place_order_simulation self side q p))\<rparr>]
            else []) \<and>
         files (fst (place_order_simulation self side q p)) = files self \<and>
         take (length (trade_log self)) (trade_log (place_orders self calls)) = trade_log self \<and>
         map trade_call (drop (length (trade_log self)) (trade_log (place_orders self calls))) =
           filled_calls self calls \<and>
         length (trade_log (place_orders self calls)) =
           length (trade_log self) + length (filled_calls self calls) \<and>
         files (place_orders self calls) = files self \<and>
         map_of (files (save_trade_log self now))
           (''simulation_results/trade_log_'' @ now @ ''.json'') =
           Some (JArray (map (\<lambda>t. JObject
             [(''type'', JString (trade_type t)),
              (''quantity'', JNumber (trade_quantity t)),
              (''price'', JNumber (trade_price t)),
              (''balance'', JObject (map (\<lambda>(k, v). (k, JNumber v)) (trade_balance t)))])
             (trade_log self))) \<and>
         (cycle_action (signal (calculate_signals (moving_avg_short self) (moving_avg_long self)
            (drawn_closes inp))) = Inr NONE \<longrightarrow>
          run_cycle self inp = (save_trade_log self (clock inp), None))"
proof -
  from trade_log_place_orders [OF assms, of calls] obtain new
    where n: "trade_log (place_orders self calls) = trade_log self @ new"
      and m: "map trade_call new = filled_calls self calls" by blast
  have len: "length new = length (filled_calls self calls)"
    using m by (metis length_map)
  have saved: "map_of (files (save_trade_log self now))
           (''simulation_results/trade_log_'' @ now @ ''.json'') =
           Some (JArray (map (\<lambda>t. JObject
             [(''type'', JString (trade_type t)),
              (''quantity'', JNumber (trade_quantity t)),
              (''price'', JNumber (trade_price t)),
              (''balance'', JObject (map (\<lambda>(k, v). (k, JNumber v)) (trade_balance t)))])
             (trade_log self)))"
    by (simp add: save_trade_log_def Let_def update_conv' json_dump_def trade_json_def)
  have quiet: "cycle_action (signal (calculate_signals (moving_avg_short self) (moving_avg_long self)
            (drawn_closes inp))) = Inr NONE \<longrightarrow>
          run_cycle self inp = (save_trade_log self (clock inp), None)"
    using run_cycle_quiet by blast
  show ?thesis
    using trade_log_place_order [OF assms, of side q p] files_place_order [of self side q p]
      files_place_orders [of self calls] n m len saved quiet
    by simp
qed

text \<open>A filled BUY, a refused BUY and a filled SELL, then the log saved.\<close>

theorem trade_log_records_each_fill_witness:
  "has_keys (init ''BTCUSDT'' ''1h'' True 100) \<and>
   trade_log (fst (place_order_simulation (init ''BTCUSDT'' ''1h'' True 100) ''BUY''
     (fl 0.001) 50000)) =
     [\<lparr>trade_type = ''BUY'', trade_quantity = fl 0.001, trade_price = 50000,
       trade_balance = [(''USDT'', 50), (''BTC'', fl 0.001)]\<rparr>] \<and>
   trade_log (fst (place_order_simulation (init ''BTCUSDT'' ''1h'' True 100) ''BUY''
     (fl 0.001) 200000)) = [] \<and>
   map trade_call (trade_log (place_orders (init ''BTCUSDT'' ''1h'' True 100)
     [(''BUY'', fl 0.001, 50000 :: real), (''BUY'', fl 0.001, 60000), (''SELL'', fl 0.001, 40000)])) =
     [(''BUY'', fl 0.001, 50000), (''SELL'', fl 0.001, 40000)] \<and>
   length (trade_log (place_orders (init ''BTCUSDT'' ''1h'' True 100)
     [(''BUY'', fl 0.001, 50000 :: real), (''BUY'', fl 0.001, 60000), (''SELL'', fl 0.001, 40000)])) = 2 \<and>
   map_of (files (save_trade_log (place_orders (init ''BTCUSDT'' ''1h'' True 100)
     [(''BUY'', fl 0.001, 50000 :: real), (''BUY'', fl 0.001, 60000), (''SELL'', fl 0.001, 40000)])
     ''20240101_000000'')) ''simulation_results/trade_log_20240101_000000.json'' =
     Some (JArray
       [JObject [(''type'', JString ''BUY''), (''quantity'', JNumber (fl 0.001)),
                 (''price'', JNumber 50000),
                 (''balance'', JObject [(''USDT'', JNumber 50), (''BTC'', JNumber (fl 0.001))])],
        JObject [(''type'', JString ''SELL''), (''quantity'', JNumber (fl 0.001)),
                 (''price'', JNumber 40000),
                 (''balance'', JObject [(''USDT'', JNumber 90), (''BTC'', JNumber 0)])]])"
proof -
  let ?s0 = "init ''BTCUSDT'' ''1h'' True 100"
  let ?calls = "[(''BUY'', fl 0.001, 50000 :: real), (''BUY'', fl 0.001, 60000),
                 (''SELL'', fl 0.001, 40000)]"
  have k: "has_keys ?s0" by (rule has_keys_init)
  have e: "trade_log ?s0 = []" by (simp add: init_def)
  have f1: "order_fills ?s0 ''BUY'' (fl 0.001) 50000"
    using cost_001 by (simp add: order_fills_def init_def)
  have f2: "\<not> order_fills ?s0 ''BUY'' (fl 0.001) 200000"
    using cost_001 by (simp add: order_fills_def init_def)
  have b: "digital_balance (fst (place_order_simulation ?s0 ''BUY'' (fl 0.001) 50000)) =
             [(''USDT'', 50), (''BTC'', fl 0.001)]"
    using cost_001 ops_001 by (simp add: place_order_simulation_def init_def Let_def)
  have fc: "filled_calls ?s0 ?calls = [(''BUY'', fl 0.001, 50000), (''SELL'', fl 0.001, 40000)]"
    using cost_001 ops_001
    by (simp add: order_fills_def place_order_simulation_def init_def Let_def)
  have tl: "trade_log (place_orders ?s0 ?calls) =
     [\<lparr>trade_type = ''BUY'', trade_quantity = fl 0.001, trade_price = 50000,
       trade_balance = [(''USDT'', 50), (''BTC'', fl 0.001)]\<rparr>,
      \<lparr>trade_type = ''SELL'', trade_quantity = fl 0.001, trade_price = 40000,
       trade_balance = [(''USDT'', 90), (''BTC'', 0)]\<rparr>]"
    using cost_001 ops_001 by (simp add: place_order_simulation_def init_def Let_def)
  have kk: "has_keys (place_orders ?s0 ?calls)"
    using k by (simp add: has_keys_place_order)
  note a1 = trade_log_records_each_fill [OF k, of "''BUY''" "fl 0.001" 50000 ?calls]
  note a2 = trade_log_records_each_fill [OF k, of "''BUY''" "fl 0.001" 200000 "[]"]
  note a3 = trade_log_records_each_fill [OF kk, of "''BUY''" 0 0 "[]" "''20240101_000000''"]
  from a1 e f1 b
  have c1: "trade_log (fst (place_order_simulation ?s0 ''BUY'' (fl 0.001) 50000)) =
     [\<lparr>trade_type = ''BUY'', trade_quantity = fl 0.001, trade_price = 50000,
       trade_balance = [(''USDT'', 50), (''BTC'', fl 0.001)]\<rparr>]"
    by simp
  from a2 e f2
  have c2: "trade_log (fst (place_order_simulation ?s0 ''BUY'' (fl 0.001) 200000)) = []"
    by simp
  from a1 e fc
  have c3: "map trade_call (trade_log (place_orders ?s0 ?calls)) =
              [(''BUY'', fl 0.001, 50000), (''SELL'', fl 0.001, 40000)]"
    and c4: "length (trade_log (place_orders ?s0 ?calls)) = 2"
    by (simp_all del: place_orders.simps filled_calls.simps)
  from a3 have c5: "map_of (files (save_trade_log (place_orders ?s0 ?calls) ''20240101_000000''))
     (''simulation_results/trade_log_'' @ ''20240101_000000'' @ ''.json'') =
     Some (JArray (map (\<lambda>t. JObject
             [(''type'', JString (trade_type t)),
              (''quantity'', JNumber (trade_quantity t)),
              (''price'', JNumber (trade_price t)),
              (''balance'', JObject (map (\<lambda>(k, v). (k, JNumber v)) (trade_balance t)))])
             (trade_log (place_orders ?s0 ?calls))))"
    by blast
  show ?thesis
    using k c1 c2 c3 c4 c5 [unfolded tl] by (simp del: place_orders.simps)
qed

section \<open>Claims about the polling loop\<close>

text \<open>
  C10. The class of the simulation bot has no attribute \<open>place_order_simulation\<close>, so
  the call in the buy and in the sell branch raises AttributeError and leaves the state
  as it was. A pass of the loop, and so any number of passes, leaves \<open>digital_balance\<close>
  and \<open>trade_log\<close> as they were; from \<open>__init__\<close> they stay the initial balances and the
  empty log. A pass that detects an entry or an exit ends in the handler of the loop:
  it returns the state with one error record added, and the AttributeError it caught.
\<close>

theorem simulation_never_trades:
  "''place_order_simulation'' \<notin> set (instance_attributes @ class_methods) \<and>
   call_place_order_simulation self side q p = (self, Some AttributeError) \<and>
   digital_balance (fst (run_cycle self inp)) = digital_balance self \<and>
   trade_log (fst (run_cycle self inp)) = trade_log self \<and>
   digital_balance (run_bot self inputs) = digital_balance self \<and>
   trade_log (run_bot self inputs) = trade_log self \<and>
   digital_balance (run_bot (init s iv sm bal) inputs) =
     AList.update (replace_USDT s) 0 [(''USDT'', bal)] \<and>
   trade_log (run_bot (init s iv sm bal) inputs) = [] \<and>
   (cycle_action (signal (calculate_signals (moving_avg_short self) (moving_avg_long self)
      (drawn_closes inp))) = Inr ENTER_LONG \<or>
    cycle_action (signal (calculate_signals (moving_avg_short self) (moving_avg_long self)
      (drawn_closes inp))) = Inr EXIT_LONG \<longrightarrow>
    run_cycle self inp =
      (self\<lparr>log_records := log_records self @
         [Error ''Error in simulation loop: '' AttributeError]\<rparr>, Some AttributeError))"
proof -
  have fires: "cycle_action (signal (calculate_signals (moving_avg_short self) (moving_avg_long self)
      (drawn_closes inp))) = Inr ENTER_LONG \<or>
    cycle_action (signal (calculate_signals (moving_avg_short self) (moving_avg_long self)
      (drawn_closes inp))) = Inr EXIT_LONG \<longrightarrow>
    run_cycle self inp = caught self AttributeError"
    using run_cycle_fires [of self inp ENTER_LONG] run_cycle_fires [of self inp EXIT_LONG]
    by auto
  have i: "digital_balance (init s iv sm bal) = AList.update (replace_USDT s) 0 [(''USDT'', bal)]"
    "trade_log (init s iv sm bal) = []"
    by (simp_all add: init_def)
  show ?thesis
    using no_method call_raises [of self side q p] run_cycle_keeps [of self inp]
      run_bot_keeps [of self inputs] run_bot_keeps [of "init s iv sm bal" inputs] i fires
    by (simp add: caught_def)
qed

theorem simulation_never_trades_witness:
  "cycle_action (signal (calculate_signals (moving_avg_short (init ''BTCUSDT'' ''1h'' True 10000))
      (moving_avg_long (init ''BTCUSDT'' ''1h'' True 10000))
      (drawn_closes \<lparr>drawn_closes = replicate 39 200 @ replicate 20 100 @ [3000],
                      clock = ''20240101_000000''\<rparr>))) = Inr ENTER_LONG \<and>
   run_cycle (init ''BTCUSDT'' ''1h'' True 10000)
     \<lparr>drawn_closes = replicate 39 200 @ replicate 20 100 @ [3000], clock = ''20240101_000000''\<rparr> =
     ((init ''BTCUSDT'' ''1h'' True 10000)
        \<lparr>log_records := [Error ''Error in simulation loop: '' AttributeError]\<rparr>,
      Some AttributeError) \<and>
   digital_balance (run_bot (init ''BTCUSDT'' ''1h'' True 10000)
     [\<lparr>drawn_closes = replicate 39 200 @ replicate 20 100 @ [3000], clock = ''20240101_000000''\<rparr>,
      \<lparr>drawn_closes = replicate 39 200 @ replicate 20 100 @ [4000], clock = ''20240101_000100''\<rparr>]) =
     [(''USDT'', 10000), (''BTC'', 0)]"
proof -
  have a: "cycle_action (signal (calculate_signals (moving_avg_short (init ''BTCUSDT'' ''1h'' True 10000))
      (moving_avg_long (init ''BTCUSDT'' ''1h'' True 10000))
      (drawn_closes \<lparr>drawn_closes = replicate 39 200 @ replicate 20 100 @ [3000],
                      clock = ''20240101_000000''\<rparr>))) = Inr ENTER_LONG"
    using frame_sim_action(1) by (simp add: init_def)
  have l: "log_records (init ''BTCUSDT'' ''1h'' True 10000) = []" by (simp add: init_def)
  have d: "digital_balance (init ''BTCUSDT'' ''1h'' True 10000) = [(''USDT'', 10000), (''BTC'', 0)]"
    by (simp add: init_def)
  show ?thesis
    using a l d simulation_never_trades [of "init ''BTCUSDT'' ''1h'' True 10000" "''BUY''" 0 0
      "\<lparr>drawn_closes = replicate 39 200 @ replicate 20 100 @ [3000], clock = ''20240101_000000''\<rparr>"
      "[\<lparr>drawn_closes = replicate 39 200 @ replicate 20 100 @ [3000], clock = ''20240101_000000''\<rparr>,
        \<lparr>drawn_closes = replicate 39 200 @ replicate 20 100 @ [4000], clock = ''20240101_000100''\<rparr>]"
      "''BTCUSDT''" "''1h''" True 10000]
    by (simp del: run_bot.simps)
qed

section \<open>Facts about the live bot\<close>

lemma log_live_fields [simp]:
  "submitted (log_live self r) = submitted self"
  "live_symbol (log_live self r) = live_symbol self"
  "live_quantity (log_live self r) = live_quantity self"
  "live_moving_avg_short (log_live self r) = live_moving_avg_short self"
  "live_moving_avg_long (log_live self r) = live_moving_avg_long self"
  by (simp_all add: log_live_def)

lemma place_order_fields:
  "submitted (place_order self side q inp) = submitted self @ [(live_symbol self, side, q)]"
  "live_symbol (place_order self side q inp) = live_symbol self"
  "live_quantity (place_order self side q inp) = live_quantity self"
  "live_moving_avg_short (place_order self side q inp) = live_moving_avg_short self"
  "live_moving_avg_long (place_order self side q inp) = live_moving_avg_long self"
  by (simp_all add: place_order_def Let_def)

lemma detect_enter: "detectTransition p c = ENTER_LONG \<longleftrightarrow> c = 1 \<and> p = - 1"
  by (auto simp: detectTransition_def)

lemma detect_exit: "detectTransition p c = EXIT_LONG \<longleftrightarrow> c = - 1 \<and> p = 1"
  by (auto simp: detectTransition_def)

lemma live_cycle_consts:
  "live_symbol (fst (run_cycle_live self inp)) = live_symbol self \<and>
   live_quantity (fst (run_cycle_live self inp)) = live_quantity self \<and>
   live_moving_avg_short (fst (run_cycle_live self inp)) = live_moving_avg_short self \<and>
   live_moving_avg_long (fst (run_cycle_live self inp)) = live_moving_avg_long self"
  by (auto simp: run_cycle_live_def get_historical_data_def check_account_balance_def
      caught_live_def place_order_fields Let_def
      split: option.splits sum.splits prod.splits)

lemma live_cycle_submitted:
  "submitted (fst (run_cycle_live self inp)) =
     submitted self @ decided_orders (live_symbol self) (live_quantity self)
       (live_moving_avg_short self) (live_moving_avg_long self) inp"
proof (cases "klines inp")
  case None
  then show ?thesis
    by (simp add: run_cycle_live_def get_historical_data_def decided_orders_def)
next
  case (Some closes)
  let ?df = "calculate_signals (live_moving_avg_short self) (live_moving_avg_long self) closes"
  show ?thesis
  proof (cases "closes = []")
    case True
    then show ?thesis using Some
      by (simp add: run_cycle_live_def get_historical_data_def decided_orders_def
          calculate_signals_live_def MA_cols iloc_def cycle_action_def caught_live_def
          calculate_signals_def rolling_mean_def)
  next
    case False
    then have live: "calculate_signals_live (live_moving_avg_short self)
                       (live_moving_avg_long self) closes = Some ?df"
      using iloc_last [OF False] by (simp add: calculate_signals_live_def MA_cols Let_def)
    show ?thesis
    proof (cases "cycle_action (signal ?df)")
      case (Inl e)
      then show ?thesis using Some live
        by (auto simp: run_cycle_live_def get_historical_data_def decided_orders_def
            cycle_action_def caught_live_def split: sum.splits)
    next
      case (Inr a)
      then obtain c p where c: "iloc (signal ?df) (- 1) = Inr c"
        and p: "iloc (signal ?df) (- 2) = Inr p" and a: "a = detectTransition p c"
        by (auto simp: cycle_action_def split: sum.splits)
      show ?thesis using Some live Inr c p a
        by (auto simp: run_cycle_live_def get_historical_data_def decided_orders_def
            check_account_balance_def place_order_fields Let_def detect_enter detect_exit
            split: option.splits)
    qed
  qed
qed

lemma live_run_submitted:
  "submitted (run_bot_live self inputs) =
     submitted self @ concat (map (decided_orders (live_symbol self) (live_quantity self)
       (live_moving_avg_short self) (live_moving_avg_long self)) inputs)"
proof (induction inputs arbitrary: self)
  case Nil
  then show ?case by simp
next
  case (Cons inp inputs)
  show ?case
    using Cons.IH [of "fst (run_cycle_live self inp)"] live_cycle_consts [of self inp]
    by (simp add: live_cycle_submitted)
qed

lemma sim_cycle_catch:
  "snd (run_cycle self inp) = decided_catch (moving_avg_short self) (moving_avg_long self) inp"
proof (cases "cycle_action (signal (calculate_signals (moving_avg_short self) (moving_avg_long self)
             (drawn_closes inp)))")
  case (Inl e)
  then show ?thesis by (simp add: decided_catch_def run_cycle_index caught_def)
next
  case (Inr a)
  show ?thesis
  proof (cases "a = NONE")
    case True
    then show ?thesis using Inr by (simp add: decided_catch_def run_cycle_quiet)
  next
    case False
    then show ?thesis using Inr run_cycle_fires [OF Inr False]
      by (simp add: decided_catch_def caught_def)
  qed
qed

lemma sim_run_caught:
  "run_bot_caught self inputs =
     map (decided_catch (moving_avg_short self) (moving_avg_long self)) inputs"
proof (induction inputs arbitrary: self)
  case Nil
  then show ?case by simp
next
  case (Cons inp inputs)
  show ?case
    using Cons.IH [of "fst (run_cycle self inp)"] run_cycle_keeps [of self inp]
    by (simp add: sim_cycle_catch)
qed

lemma frame_live:
  "window_mean 20 (replicate 30 200 @ replicate 20 100 @ [3000]) = Some 245"
  "window_mean 50 (replicate 30 200 @ replicate 20 100 @ [3000]) = Some 216"
  "window_mean 20 (replicate 30 200 @ replicate 20 100 @ [4000]) = Some 295"
  "window_mean 50 (replicate 30 200 @ replicate 20 100 @ [4000]) = Some 236"
  "window_mean 20 (replicate 30 200 @ replicate 20 100) = Some 100"
  "window_mean 50 (replicate 30 200 @ replicate 20 100) = Some 160"
  by (simp_all add: window_mean_def sum_list_replicate)

lemma frame_live_butlast:
  "butlast (replicate 30 (200::real) @ replicate 20 100 @ [3000]) = replicate 30 200 @ replicate 20 100"
  "butlast (replicate 30 (200::real) @ replicate 20 100 @ [4000]) = replicate 30 200 @ replicate 20 100"
  by (simp_all add: butlast_append)

lemma frame_live_action:
  "cycle_action (signal (calculate_signals 20 50 (replicate 30 200 @ replicate 20 100 @ [3000]))) =
     Inr ENTER_LONG"
  "cycle_action (signal (calculate_signals 20 50 (replicate 30 200 @ replicate 20 100 @ [4000]))) =
     Inr ENTER_LONG"
proof -
  have l1: "2 \<le> length (replicate 30 (200::real) @ replicate 20 100 @ [3000])" by simp
  have l2: "2 \<le> length (replicate 30 (200::real) @ replicate 20 100 @ [4000])" by simp
  have e: "detectTransition DOWN UP = ENTER_LONG"
    by (simp add: detectTransition_def UP_def DOWN_def)
  show "cycle_action (signal (calculate_signals 20 50
          (replicate 30 200 @ replicate 20 100 @ [3000]))) = Inr ENTER_LONG"
    by (simp only: cycle_action_frame [OF l1] frame_live_butlast frame_live sig_vals e)
  show "cycle_action (signal (calculate_signals 20 50
          (replicate 30 200 @ replicate 20 100 @ [4000]))) = Inr ENTER_LONG"
    by (simp only: cycle_action_frame [OF l2] frame_live_butlast frame_live sig_vals e)
qed

section \<open>The samples of a pass\<close>

text \<open>
  C5, as the claim states it: previous is the current of the pass before, so an edge
  that fired does not fire again in the next pass. Two consecutive passes of the live
  bot fetch 51 klines each, the second differing from the first in the last close only.
  The current signal of the first pass is UP, the previous signal of the second pass is
  DOWN, and both passes submit a BUY order. The simulation bot, on two draws of 60
  closes, detects the entry in both passes as well (each ends in the handler).
\<close>

theorem previous_not_carried_counterexample:
  "iloc (signal (calculate_signals 20 50 (replicate 30 200 @ replicate 20 100 @ [3000]))) (- 1) =
     Inr UP \<and>
   iloc (signal (calculate_signals 20 50 (replicate 30 200 @ replicate 20 100 @ [4000]))) (- 2) =
     Inr DOWN \<and>
   UP \<noteq> DOWN \<and>
   submitted (run_bot_live (init_live ''BTCUSDT'' ''1h'')
     [\<lparr>klines = Some (replicate 30 200 @ replicate 20 100 @ [3000]),
       account = Some [(''USDT'', 100, 0)], order_accepted = True\<rparr>,
      \<lparr>klines = Some (replicate 30 200 @ replicate 20 100 @ [4000]),
       account = Some [(''USDT'', 100, 0)], order_accepted = True\<rparr>]) =
     [(''BTCUSDT'', ''BUY'', 0.001), (''BTCUSDT'', ''BUY'', 0.001)] \<and>
   run_bot_caught (init ''BTCUSDT'' ''1h'' True 10000)
     [\<lparr>drawn_closes = replicate 39 200 @ replicate 20 100 @ [3000], clock = ''20240101_000000''\<rparr>,
      \<lparr>drawn_closes = replicate 39 200 @ replicate 20 100 @ [4000], clock = ''20240101_000100''\<rparr>] =
     [Some AttributeError, Some AttributeError]"
proof -
  have l1: "2 \<le> length (replicate 30 (200::real) @ replicate 20 100 @ [4000])" by simp
  have n1: "replicate 30 (200::real) @ replicate 20 100 @ [3000] \<noteq> []" by simp
  have a: "iloc (signal (calculate_signals 20 50 (replicate 30 200 @ replicate 20 100 @ [3000])))
             (- 1) = Inr UP"
    by (simp only: sig_last [OF n1] frame_live sig_vals)
  have b: "iloc (signal (calculate_signals 20 50 (replicate 30 200 @ replicate 20 100 @ [4000])))
             (- 2) = Inr DOWN"
    by (simp only: sig_penultimate [OF l1] frame_live_butlast frame_live sig_vals)
  have c: "UP \<noteq> DOWN" by (simp add: UP_def DOWN_def)
  have d: "submitted (run_bot_live (init_live ''BTCUSDT'' ''1h'')
     [\<lparr>klines = Some (replicate 30 200 @ replicate 20 100 @ [3000]),
       account = Some [(''USDT'', 100, 0)], order_accepted = True\<rparr>,
      \<lparr>klines = Some (replicate 30 200 @ replicate 20 100 @ [4000]),
       account = Some [(''USDT'', 100, 0)], order_accepted = True\<rparr>]) =
     [(''BTCUSDT'', ''BUY'', 0.001), (''BTCUSDT'', ''BUY'', 0.001)]"
    unfolding live_run_submitted
    by (simp add: init_live_def decided_orders_def frame_live_action holds_asset_def)
  have e: "run_bot_caught (init ''BTCUSDT'' ''1h'' True 10000)
     [\<lparr>drawn_closes = replicate 39 200 @ replicate 20 100 @ [3000], clock = ''20240101_000000''\<rparr>,
      \<lparr>drawn_closes = replicate 39 200 @ replicate 20 100 @ [4000], clock = ''20240101_000100''\<rparr>] =
     [Some AttributeError, Some AttributeError]"
    unfolding sim_run_caught
    by (simp add: init_def decided_catch_def frame_sim_action)
  from a b c d e show ?thesis by blast
qed

text \<open>
  C5, amended: every pass reads both samples from the frame it fetched itself: current
  is the signal of the last row and previous the signal of the row before it, and the
  decision is taken on that pair. Neither bot keeps a sample from one pass to the next:
  the orders the live bot has submitted after a run are, pass by pass, the orders
  decided from the input of that pass alone, and what the simulation bot catches in
  each pass is decided from the draw of that pass alone, whatever earlier passes did
  and whether their orders were accepted.
\<close>

theorem each_pass_reads_its_own_frame:
  "(2 \<le> length closes \<longrightarrow>
      cycle_action (signal (calculate_signals S L closes)) =
        Inr (detectTransition (signal (calculate_signals S L closes) ! (length closes - 2))
              (signal (calculate_signals S L closes) ! (length closes - 1)))) \<and>
   submitted (run_bot_live lb inputs) =
     submitted lb @ concat (map (decided_orders (live_symbol lb) (live_quantity lb)
       (live_moving_avg_short lb) (live_moving_avg_long lb)) inputs) \<and>
   run_bot_caught self draws =
     map (decided_catch (moving_avg_short self) (moving_avg_long self)) draws"
proof -
  have "cycle_action (signal (calculate_signals S L closes)) =
        Inr (detectTransition (signal (calculate_signals S L closes) ! (length closes - 2))
              (signal (calculate_signals S L closes) ! (length closes - 1)))"
    if l: "2 \<le> length closes"
  proof -
    let ?sg = "signal (calculate_signals S L closes)"
    have ne: "?sg \<noteq> []" using l by (intro signal_nonempty) auto
    have "iloc ?sg (- 1) = Inr (?sg ! (length closes - 1))"
      using iloc_last [OF ne] by simp
    moreover have "iloc ?sg (- 2) = Inr (?sg ! (length closes - 2))"
      using iloc_penultimate [of ?sg] l by simp
    ultimately show ?thesis by (simp add: cycle_action_def)
  qed
  then show ?thesis
    using live_run_submitted [of lb inputs] sim_run_caught [of self draws] by blast
qed

theorem each_pass_reads_its_own_frame_witness:
  "2 \<le> length [3, 2, 4 :: real] \<and>
   signal (calculate_signals 1 2 [3, 2, 4]) = [FLAT, DOWN, UP] \<and>
   cycle_action (signal (calculate_signals 1 2 [3, 2, 4])) = Inr ENTER_LONG \<and>
   submitted (run_bot_live (init_live ''BTCUSDT'' ''1h'')
     [\<lparr>klines = Some [3, 2, 4], account = None, order_accepted = True\<rparr>]) = []"
proof -
  have s: "signal (calculate_signals 1 2 [3, 2, 4]) = [FLAT, DOWN, UP]"
    by (simp add: calculate_signals_def rolling_mean_def window_mean_def assign_signal_def
        nan_gt_def nan_lt_def Let_def upt_rec UP_def DOWN_def FLAT_def)
  have i: "submitted (init_live ''BTCUSDT'' ''1h'') = []" by (simp add: init_live_def)
  show ?thesis
    using each_pass_reads_its_own_frame [of "[3, 2, 4]" 1 2 "init_live ''BTCUSDT'' ''1h''"
      "[\<lparr>klines = Some [3, 2, 4], account = None, order_accepted = True\<rparr>]"] s i
    by (simp add: detectTransition_def UP_def DOWN_def FLAT_def decided_orders_def holds_asset_def
        Let_def del: run_bot_live.simps split: sum.splits)
qed

section \<open>The edge trigger in the loop\<close>

lemma last_rows:
  assumes "2 \<le> length closes"
  shows "signal (calculate_signals S L closes) ! (length closes - 1) =
           assign_signal (window_mean S closes) (window_mean L closes)"
    and "signal (calculate_signals S L closes) ! (length closes - 2) =
           assign_signal (window_mean S (butlast closes)) (window_mean L (butlast closes))"
proof -
  have n1: "length closes - 1 < length closes" and n2: "length closes - 2 < length closes"
    using assms by simp_all
  have e1: "Suc (length closes - 1) = length closes"
    and e2: "Suc (length closes - 2) = length closes - 1"
    using assms by simp_all
  show "signal (calculate_signals S L closes) ! (length closes - 1) =
           assign_signal (window_mean S closes) (window_mean L closes)"
    using nth_signal [OF n1, of S L] e1 by simp
  show "signal (calculate_signals S L closes) ! (length closes - 2) =
           assign_signal (window_mean S (butlast closes)) (window_mean L (butlast closes))"
    using nth_signal [OF n2, of S L] e2 by (simp add: butlast_conv_take)
qed

lemma cycle_action_rows:
  assumes "2 \<le> length closes"
  shows "cycle_action (signal (calculate_signals S L closes)) =
           Inr (detectTransition (signal (calculate_signals S L closes) ! (length closes - 2))
                 (signal (calculate_signals S L closes) ! (length closes - 1)))"
  unfolding last_rows [OF assms] by (rule cycle_action_frame [OF assms])

lemma decided_orders_short: "length (decided_orders s q S L inp) \<le> 1"
  by (simp add: decided_orders_def Let_def split: option.splits sum.splits)

lemma length_concat_short:
  "(\<And>x. length (f x) \<le> 1) \<Longrightarrow>
   length (concat (map f xs)) = length (filter (\<lambda>x. f x \<noteq> []) xs)"
proof (induction xs)
  case Nil
  then show ?case by simp
next
  case (Cons x xs)
  have "length (f x) \<le> 1" by (rule Cons.prems)
  then have "length (f x) = (if f x \<noteq> [] then 1 else 0)"
    by (cases "f x") auto
  with Cons show ?case by simp
qed

text \<open>
  C1, as the claim states it: each DOWN to UP transition fires exactly one action, on
  the pass where it is first seen. The live bot fetches the same 51 klines in two
  consecutive passes; the last two rows are DOWN, UP, and each pass submits a BUY: one
  transition, two orders.
\<close>

theorem edge_fires_in_every_pass_counterexample:
  "iloc (signal (calculate_signals 20 50 (replicate 30 200 @ replicate 20 100 @ [3000]))) (- 2) =
     Inr DOWN \<and>
   iloc (signal (calculate_signals 20 50 (replicate 30 200 @ replicate 20 100 @ [3000]))) (- 1) =
     Inr UP \<and>
   submitted (run_bot_live (init_live ''BTCUSDT'' ''1h'')
     [\<lparr>klines = Some (replicate 30 200 @ replicate 20 100 @ [3000]),
       account = Some [(''USDT'', 100, 0)], order_accepted = True\<rparr>,
      \<lparr>klines = Some (replicate 30 200 @ replicate 20 100 @ [3000]),
       account = Some [(''USDT'', 100, 0)], order_accepted = True\<rparr>]) =
     [(''BTCUSDT'', ''BUY'', 0.001), (''BTCUSDT'', ''BUY'', 0.001)]"
proof -
  have l: "2 \<le> length (replicate 30 (200::real) @ replicate 20 100 @ [3000])" by simp
  have n: "replicate 30 (200::real) @ replicate 20 100 @ [3000] \<noteq> []" by simp
  have a: "iloc (signal (calculate_signals 20 50 (replicate 30 200 @ replicate 20 100 @ [3000])))
             (- 2) = Inr DOWN"
    by (simp only: sig_penultimate [OF l] frame_live_butlast frame_live sig_vals)
  have b: "iloc (signal (calculate_signals 20 50 (replicate 30 200 @ replicate 20 100 @ [3000])))
             (- 1) = Inr UP"
    by (simp only: sig_last [OF n] frame_live sig_vals)
  have c: "submitted (run_bot_live (init_live ''BTCUSDT'' ''1h'')
     [\<lparr>klines = Some (replicate 30 200 @ replicate 20 100 @ [3000]),
       account = Some [(''USDT'', 100, 0)], order_accepted = True\<rparr>,
      \<lparr>klines = Some (replicate 30 200 @ replicate 20 100 @ [3000]),
       account = Some [(''USDT'', 100, 0)], order_accepted = True\<rparr>]) =
     [(''BTCUSDT'', ''BUY'', 0.001), (''BTCUSDT'', ''BUY'', 0.001)]"
    unfolding live_run_submitted
    by (simp add: init_live_def decided_orders_def frame_live_action holds_asset_def)
  from a b c show ?thesis by blast
qed

text \<open>
  C1, amended: the decision is a strict edge trigger on the pair it is given: ENTER_LONG
  exactly for previous DOWN and current UP, EXIT_LONG exactly for previous UP and
  current DOWN, NONE for every other pair, in particular whenever one of the two is
  FLAT or the two are equal. In a pass of the loop the pair is the last two rows of the
  frame that pass fetched. A pass of the live bot submits one order exactly when the
  decision on this pair is an entry (and the account holds USDT) or an exit (and the
  account holds the base asset), and none otherwise; a pass of the simulation bot ends
  in the handler with AttributeError exactly when the decision is not NONE. Over a run
  the live bot has submitted one order per pass that decided one, and the simulation
  bot has logged one error per pass that caught one: an edge fires in every pass whose
  frame ends with it.
\<close>

theorem edge_trigger_per_pass:
  "(detectTransition p c = ENTER_LONG \<longleftrightarrow> p = DOWN \<and> c = UP) \<and>
   (detectTransition p c = EXIT_LONG \<longleftrightarrow> p = UP \<and> c = DOWN) \<and>
   (detectTransition p c = NONE \<longleftrightarrow> \<not> (p = DOWN \<and> c = UP) \<and> \<not> (p = UP \<and> c = DOWN)) \<and>
   (p = FLAT \<or> c = FLAT \<or> p = c \<longrightarrow> detectTransition p c = NONE) \<and>
   (klines inp = Some closes \<and> 2 \<le> length closes \<longrightarrow>
      submitted (fst (run_cycle_live lb inp)) =
        submitted lb @
        (if detectTransition
              (signal (calculate_signals (live_moving_avg_short lb) (live_moving_avg_long lb)
                 closes) ! (length closes - 2))
              (signal (calculate_signals (live_moving_avg_short lb) (live_moving_avg_long lb)
                 closes) ! (length closes - 1)) = ENTER_LONG \<and>
            holds_asset (map_option (filter (\<lambda>(asset, free, locked). free > 0 \<or> locked > 0))
              (account inp)) ''USDT''
         then [(live_symbol lb, ''BUY'', live_quantity lb)]
         else if detectTransition
              (signal (calculate_signals (live_moving_avg_short lb) (live_moving_avg_long lb)
                 closes) ! (length closes - 2))
              (signal (calculate_signals (live_moving_avg_short lb) (live_moving_avg_long lb)
                 closes) ! (length closes - 1)) = EXIT_LONG \<and>
            holds_asset (map_option (filter (\<lambda>(asset, free, locked). free > 0 \<or> locked > 0))
              (account inp)) (replace_USDT (live_symbol lb))
         then [(live_symbol lb, ''SELL'', live_quantity lb)]
         else [])) \<and>
   (2 \<le> length (drawn_closes draw) \<longrightarrow>
      snd (run_cycle self draw) =
        (if detectTransition
              (signal (calculate_signals (moving_avg_short self) (moving_avg_long self)
                 (drawn_closes draw)) ! (length (drawn_closes draw) - 2))
              (signal (calculate_signals (moving_avg_short self) (moving_avg_long self)
                 (drawn_closes draw)) ! (length (drawn_closes draw) - 1)) = NONE
         then None else Some AttributeError)) \<and>
   length (submitted (run_bot_live lb inputs)) =
     length (submitted lb) +
     length (filter (\<lambda>i. decided_orders (live_symbol lb) (live_quantity lb)
       (live_moving_avg_short lb) (live_moving_avg_long lb) i \<noteq> []) inputs) \<and>
   log_records (run_bot self draws) =
     log_records self @
     concat (map (\<lambda>i. case decided_catch (moving_avg_short self) (moving_avg_long self) i of
                        None \<Rightarrow> [] | Some e \<Rightarrow> [Error ''Error in simulation loop: '' e]) draws)"
proof -
  have flat: "p = FLAT \<or> c = FLAT \<or> p = c \<longrightarrow> detectTransition p c = NONE"
    by (auto simp: detectTransition_def FLAT_def)
  have live: "klines inp = Some closes \<and> 2 \<le> length closes \<longrightarrow>
      submitted (fst (run_cycle_live lb inp)) =
        submitted lb @
        (if detectTransition
              (signal (calculate_signals (live_moving_avg_short lb) (live_moving_avg_long lb)
                 closes) ! (length closes - 2))
              (signal (calculate_signals (live_moving_avg_short lb) (live_moving_avg_long lb)
                 closes) ! (length closes - 1)) = ENTER_LONG \<and>
            holds_asset (map_option (filter (\<lambda>(asset, free, locked). free > 0 \<or> locked > 0))
              (account inp)) ''USDT''
         then [(live_symbol lb, ''BUY'', live_quantity lb)]
         else if detectTransition
              (signal (calculate_signals (live_moving_avg_short lb) (live_moving_avg_long lb)
                 closes) ! (length closes - 2))
              (signal (calculate_signals (live_moving_avg_short lb) (live_moving_avg_long lb)
                 closes) ! (length closes - 1)) = EXIT_LONG \<and>
            holds_asset (map_option (filter (\<lambda>(asset, free, locked). free > 0 \<or> locked > 0))
              (account inp)) (replace_USDT (live_symbol lb))
         then [(live_symbol lb, ''SELL'', live_quantity lb)]
         else [])"
  proof
    assume h: "klines inp = Some closes \<and> 2 \<le> length closes"
    then have k: "klines inp = Some closes" and l: "2 \<le> length closes" by simp_all
    show "submitted (fst (run_cycle_live lb inp)) =
        submitted lb @
        (if detectTransition
              (signal (calculate_signals (live_moving_avg_short lb) (live_moving_avg_long lb)
                 closes) ! (length closes - 2))
              (signal (calculate_signals (live_moving_avg_short lb) (live_moving_avg_long lb)
                 closes) ! (length closes - 1)) = ENTER_LONG \<and>
            holds_asset (map_option (filter (\<lambda>(asset, free, locked). free > 0 \<or> locked > 0))
              (account inp)) ''USDT''
         then [(live_symbol lb, ''BUY'', live_quantity lb)]
         else if detectTransition
              (signal (calculate_signals (live_moving_avg_short lb) (live_moving_avg_long lb)
                 closes) ! (length closes - 2))
              (signal (calculate_signals (live_moving_avg_short lb) (live_moving_avg_long lb)
                 closes) ! (length closes - 1)) = EXIT_LONG \<and>
            holds_asset (map_option (filter (\<lambda>(asset, free, locked). free > 0 \<or> locked > 0))
              (account inp)) (replace_USDT (live_symbol lb))
         then [(live_symbol lb, ''SELL'', live_quantity lb)]
         else [])"
      unfolding live_cycle_submitted
      by (simp add: decided_orders_def k cycle_action_rows [OF l] Let_def)
  qed
  have sim: "2 \<le> length (drawn_closes draw) \<longrightarrow>
      snd (run_cycle self draw) =
        (if detectTransition
              (signal (calculate_signals (moving_avg_short self) (moving_avg_long self)
                 (drawn_closes draw)) ! (length (drawn_closes draw) - 2))
              (signal (calculate_signals (moving_avg_short self) (moving_avg_long self)
                 (drawn_closes draw)) ! (length (drawn_closes draw) - 1)) = NONE
         then None else Some AttributeError)"
  proof
    assume l: "2 \<le> length (drawn_closes draw)"
    show "snd (run_cycle self draw) =
        (if detectTransition
              (signal (calculate_signals (moving_avg_short self) (moving_avg_long self)
                 (drawn_closes draw)) ! (length (drawn_closes draw) - 2))
              (signal (calculate_signals (moving_avg_short self) (moving_avg_long self)
                 (drawn_closes draw)) ! (length (drawn_closes draw) - 1)) = NONE
         then None else Some AttributeError)"
      unfolding sim_cycle_catch by (simp add: decided_catch_def cycle_action_rows [OF l])
  qed
  have count: "length (submitted (run_bot_live lb inputs)) =
     length (submitted lb) +
     length (filter (\<lambda>i. decided_orders (live_symbol lb) (live_quantity lb)
       (live_moving_avg_short lb) (live_moving_avg_long lb) i \<noteq> []) inputs)"
    unfolding live_run_submitted
    using length_concat_short [of "decided_orders (live_symbol lb) (live_quantity lb)
       (live_moving_avg_short lb) (live_moving_avg_long lb)" inputs, OF decided_orders_short]
    by simp
  from detect_cases [of p c] flat live sim count log_records_run_bot [of self draws]
  show ?thesis by blast
qed

text \<open>A live pass and a simulation pass whose frames end DOWN, UP.\<close>

theorem edge_trigger_per_pass_witness:
  "detectTransition DOWN UP = ENTER_LONG \<and>
   detectTransition FLAT UP = NONE \<and>
   klines \<lparr>klines = Some (replicate 30 200 @ replicate 20 100 @ [3000]),
           account = Some [(''USDT'', 100, 0)], order_accepted = True\<rparr> =
     Some (replicate 30 200 @ replicate 20 100 @ [3000]) \<and>
   2 \<le> length (replicate 30 (200 :: real) @ replicate 20 100 @ [3000]) \<and>
   submitted (fst (run_cycle_live (init_live ''BTCUSDT'' ''1h'')
     \<lparr>klines = Some (replicate 30 200 @ replicate 20 100 @ [3000]),
      account = Some [(''USDT'', 100, 0)], order_accepted = True\<rparr>)) =
     [(''BTCUSDT'', ''BUY'', 0.001)] \<and>
   2 \<le> length (drawn_closes \<lparr>drawn_closes = replicate 39 200 @ replicate 20 100 @ [3000],
                               clock = ''20240101_000000''\<rparr>) \<and>
   snd (run_cycle (init ''BTCUSDT'' ''1h'' True 10000)
     \<lparr>drawn_closes = replicate 39 200 @ replicate 20 100 @ [3000],
      clock = ''20240101_000000''\<rparr>) = Some AttributeError"
proof -
  let ?f = "replicate 30 (200 :: real) @ replicate 20 100 @ [3000]"
  let ?g = "replicate 39 (200 :: real) @ replicate 20 100 @ [3000]"
  let ?inp = "\<lparr>klines = Some ?f, account = Some [(''USDT'', 100, 0)], order_accepted = True\<rparr>"
  let ?draw = "\<lparr>drawn_closes = ?g, clock = ''20240101_000000''\<rparr>"
  have lf: "2 \<le> length ?f" and lg: "2 \<le> length ?g" by simp_all
  have bg: "butlast ?g = replicate 39 200 @ replicate 20 100" by (simp add: butlast_append)
  have rf: "signal (calculate_signals 20 50 ?f) ! (length ?f - 2) = DOWN"
           "signal (calculate_signals 20 50 ?f) ! (length ?f - 1) = UP"
    by (simp_all only: last_rows [OF lf] frame_live_butlast frame_live sig_vals)
  have rg: "signal (calculate_signals 20 50 ?g) ! (length ?g - 2) = DOWN"
           "signal (calculate_signals 20 50 ?g) ! (length ?g - 1) = UP"
    by (simp_all only: last_rows [OF lg] bg frame_sim sig_vals)
  have e: "detectTransition DOWN UP = ENTER_LONG" "detectTransition FLAT UP = NONE"
    by (simp_all add: detectTransition_def UP_def DOWN_def FLAT_def)
  have il: "live_moving_avg_short (init_live ''BTCUSDT'' ''1h'') = 20"
           "live_moving_avg_long (init_live ''BTCUSDT'' ''1h'') = 50"
           "live_symbol (init_live ''BTCUSDT'' ''1h'') = ''BTCUSDT''"
           "live_quantity (init_live ''BTCUSDT'' ''1h'') = 0.001"
           "submitted (init_live ''BTCUSDT'' ''1h'') = []"
    by (simp_all add: init_live_def)
  have ms: "moving_avg_short (init ''BTCUSDT'' ''1h'' True 10000) = 20"
           "moving_avg_long (init ''BTCUSDT'' ''1h'' True 10000) = 50"
    by (simp_all add: init_def)
  have h: "holds_asset (map_option (filter (\<lambda>(asset, free, locked). free > 0 \<or> locked > 0))
              (account ?inp)) ''USDT''"
    by (simp add: holds_asset_def)
  note inst = edge_trigger_per_pass [where p = DOWN and c = UP and inp = ?inp and closes = ?f
      and lb = "init_live ''BTCUSDT'' ''1h''" and draw = ?draw
      and self = "init ''BTCUSDT'' ''1h'' True 10000" and inputs = "[]" and draws = "[]"]
  have k: "klines ?inp = Some ?f" by simp
  have d: "drawn_closes ?draw = ?g" by simp
  from inst k lf
  have live: "submitted (fst (run_cycle_live (init_live ''BTCUSDT'' ''1h'') ?inp)) =
                [(''BTCUSDT'', ''BUY'', 0.001)]"
    unfolding il rf e using h by simp
  from inst lg
  have sim: "snd (run_cycle (init ''BTCUSDT'' ''1h'' True 10000) ?draw) = Some AttributeError"
    unfolding ms d rg e by simp
  from e k lf lg d live sim show ?thesis by simp
qed

end
